theory Spec2Isabelle
  imports Main
begin

section \<open>The outside world of zstack-ctl\<close>

text \<open>
  \<^verbatim>\<open>ctl.py\<close> drives a management node through shell commands, looks at the process
  table and at a few files, sleeps, and prints messages. The model keeps the code's control
  flow and makes the outside world explicit:
  \<^item> a \<open>world\<close> is what the code changes: the clock (read by \<^verbatim>\<open>time.time()\<close>, advanced by
    \<^verbatim>\<open>time.sleep\<close>) and the trace of what it did, oldest first;
  \<^item> an \<open>env\<close> is what the outside answers: for each shell command and each observation,
    the answer it gives at a clock time. Every theorem holds for every \<open>env\<close> that
    satisfies its hypotheses.
  The clock counts whole seconds; shell commands and observations take no time, only
  \<^verbatim>\<open>time.sleep\<close> moves the clock.
\<close>

subsection \<open>Commands, messages, events, errors\<close>

text \<open>
  The shell command lines the modelled functions build. The command strings differ by their
  formatted arguments only (database user, paths, the optional \<^verbatim>\<open>-p<password>\<close>), which no
  modelled decision reads, so a command is named by what it runs.
\<close>

datatype command =
    Which string                  \<comment> \<open>\<^verbatim>\<open>which <tool>\<close>\<close>
  | RmBootErrorLog                \<comment> \<open>\<^verbatim>\<open>rm -f ~zstack/bootError.log\<close>\<close>
  | Netstat8080                   \<comment> \<open>\<^verbatim>\<open>netstat -nap | grep :8080 | grep LISTEN\<close>\<close>
  | MysqlSelect1                  \<comment> \<open>\<^verbatim>\<open>mysql ... -e "select 1"\<close>\<close>
  | StartupScript                 \<comment> \<open>\<^verbatim>\<open>sudo -u zstack sh startup.sh -DappName=zstack\<close>\<close>
  | ShutdownScript                \<comment> \<open>\<^verbatim>\<open>bash shutdown.sh\<close>\<close>
  | Kill9 nat                     \<comment> \<open>\<^verbatim>\<open>kill -9 <pid>\<close>\<close>
  | WgetReady nat                 \<comment> \<open>the readiness request sent with \<^verbatim>\<open>wget --tries=<n>\<close>\<close>
  | CurlReady nat                 \<comment> \<open>the readiness request sent with \<^verbatim>\<open>curl --max-time <n>\<close>\<close>
  | SshStartNode string           \<comment> \<open>\<^verbatim>\<open>ssh <host> "zstack-ctl start_node --timeout=..."\<close>\<close>
  | SshStopNode string bool       \<comment> \<open>\<^verbatim>\<open>ssh <host> "zstack-ctl stop_node [--force]"\<close>\<close>
  | MysqlQueryNodes               \<comment> \<open>\<^verbatim>\<open>select hostname,heartBeat from ManagementNodeVO\<close>\<close>
  | MkdirDbBackup                 \<comment> \<open>\<^verbatim>\<open>mkdir -p ~zstack/db_backup/<time>\<close>\<close>
  | Mysqldump                     \<comment> \<open>\<^verbatim>\<open>mysqldump ... zstack > backup.sql\<close>\<close>
  | ShowSchemaVersionTable        \<comment> \<open>\<^verbatim>\<open>show tables like 'schema_version'\<close>\<close>
  | FlywayBaseline                \<comment> \<open>\<^verbatim>\<open>flyway baseline -baselineVersion=0.6\<close>\<close>
  | FlywayMigrate                 \<comment> \<open>\<^verbatim>\<open>flyway migrate\<close>\<close>

text \<open>The texts given to \<^verbatim>\<open>info\<close>, named by the place that prints them.\<close>

datatype message =
    AlreadyRunning nat
  | StartRemoteMayTakeAWhile
  | UseCatalinaOpts string
  | StartedTomcat
  | FailedToStartStopItNow
  | SuccessfullyStarted
  | HasBeenStopped
  | SuccessfullyStopped
  | UnableToStopKillIt nat
  | SeemsNodesStillRunning "string list"
  | DryRunFinished
  | StartBackupDatabase
  | BackedUpDatabase
  | InitializingVersionTable
  | UpgradedDatabase
  | SkipStopping string
  | SkipStarting string
  | Starting string
  | Stopping string

datatype event =
    Run command            \<comment> \<open>a \<^verbatim>\<open>ShellCmd\<close> was executed\<close>
  | Info message           \<comment> \<open>\<^verbatim>\<open>info(...)\<close>\<close>
  | Slept nat              \<comment> \<open>\<^verbatim>\<open>time.sleep(n)\<close>\<close>
  | Polled nat             \<comment> \<open>a polled predicate was called at this clock time\<close>
  | PidLookup "nat option" \<comment> \<open>\<^verbatim>\<open>get_management_node_pid()\<close> returned this\<close>
  | SubCommand string string \<comment> \<open>\<^verbatim>\<open>ctl.internal_run(name, args)\<close> of a command not modelled here\<close>
  | WroteSetenv            \<comment> \<open>\<^verbatim>\<open>setenv.sh\<close> was rewritten\<close>

text \<open>
  Every \<^verbatim>\<open>raise CtlError(...)\<close> of the modelled code, and the other exceptions it can
  let through. \<^verbatim>\<open>except CtlError\<close> catches the first kind only, a bare \<^verbatim>\<open>except:\<close> all.
\<close>

datatype ctl_error =
    ToolMissing string                     \<comment> \<open>cannot find tool "..."\<close>
  | ShellFailed command int                \<comment> \<open>\<^verbatim>\<open>ShellCmd.raise_error\<close>\<close>
  | NodesStillRunning "string list"        \<comment> \<open>there are some management nodes ... still running\<close>
  | NodeStillAlive string string string    \<comment> \<open>node[h] is still Running! ... changed from a to b\<close>
  | CannotFindFlyway
  | CannotFindSchemaDir
  | CannotFindDbUrl
  | CannotFindDbUser
  | CannotFindDbPassword
  | CannotFindPropertyFile
  | CannotFindZstackHome
  | CannotFindZstackUser
  | CannotParseMysqlOutput
  | PleaseUseRoot
  | Port8080Occupied
  | UnableToConnectMysql
  | NoRabbitIps
  | CannotConnectRabbit string
  | BootFailed string                      \<comment> \<open>the management server fails to boot\<close>
  | NoReadyMessageWithin nat               \<comment> \<open>no management-node-ready message received within n seconds\<close>
  | CommandFailed string                   \<comment> \<open>raised inside a command that is not modelled here\<close>

datatype error =
    CtlError ctl_error
  | TypeError            \<comment> \<open>calling \<^verbatim>\<open>None\<close>\<close>
  | ValueError           \<comment> \<open>\<^verbatim>\<open>int()\<close> of a non-number\<close>
  | KeyError             \<comment> \<open>a missing key of \<^verbatim>\<open>os.environ\<close>\<close>
  | OSError              \<comment> \<open>a refused system call, an unwritable file\<close>
  | SystemExit nat       \<comment> \<open>\<^verbatim>\<open>sys.exit(n)\<close>, as \<^verbatim>\<open>error()\<close> does\<close>

record world =
  clock :: nat
  trace :: "event list"

record node =
  hostname :: string
  heartBeat :: string

datatype path =
    BootErrorLog          \<comment> \<open>\<^verbatim>\<open>~zstack/bootError.log\<close>\<close>
  | FlywayPath            \<comment> \<open>\<^verbatim>\<open>WEB-INF/classes/tools/flyway-3.2.1/flyway\<close>\<close>
  | UpgradingSchemaDir    \<comment> \<open>\<^verbatim>\<open>WEB-INF/classes/db/upgrade/\<close>\<close>
  | DashboardVirtualenv   \<comment> \<open>\<^verbatim>\<open>/var/lib/zstack/virtualenv/zstack-dashboard\<close>\<close>
  | File string

record env =
  run_command :: "command \<Rightarrow> nat \<Rightarrow> int \<times> string"
    \<comment> \<open>exit code and standard output of a shell command started at a clock time\<close>
  management_node_pid :: "nat \<Rightarrow> error + nat option"
    \<comment> \<open>what \<^verbatim>\<open>get_management_node_pid()\<close> finds: a pid, nothing, or the \<^verbatim>\<open>CtlError\<close> of an
        unreadable property file\<close>
  path_exists :: "path \<Rightarrow> nat \<Rightarrow> bool"
  boot_error_text :: "nat \<Rightarrow> string"
  getuser :: string
  db_url :: "error + string"
    \<comment> \<open>\<^verbatim>\<open>ctl.get_db_url()\<close>\<close>
  database_portal :: "error + string \<times> string \<times> string \<times> string"
    \<comment> \<open>\<^verbatim>\<open>ctl.get_database_portal()\<close>: host, port, user, password\<close>
  ip_port_open :: "string \<Rightarrow> string \<Rightarrow> nat \<Rightarrow> bool"
  rabbitmq_ips :: "error + (string \<times> string) list"
    \<comment> \<open>\<^verbatim>\<open>ctl.read_property_list('CloudBus.serverIp.')\<close>\<close>
  ctl_env :: "string \<Rightarrow> error + string option"
    \<comment> \<open>\<^verbatim>\<open>ctl.get_env(name)\<close>\<close>
  setenv_writable :: bool
  registry :: "nat \<Rightarrow> error + node list"
    \<comment> \<open>what \<^verbatim>\<open>MySqlCommandLineQuery.query()\<close> returns for the node table at a clock time:
        the parsed rows, or the \<^verbatim>\<open>CtlError\<close> of a failed or unparsable query\<close>
  locate_command :: "string \<Rightarrow> error option"
    \<comment> \<open>\<^verbatim>\<open>_locate_zstack_home()\<close> and \<^verbatim>\<open>check_zstack_user()\<close> before a command runs\<close>
  sub_command :: "string \<Rightarrow> string \<Rightarrow> nat \<Rightarrow> error option \<times> nat"
    \<comment> \<open>a registered command whose body is not modelled here: what it raises, if anything,
        and for how many seconds it slept\<close>

definition log :: "event \<Rightarrow> world \<Rightarrow> world" where
  "log e w = w\<lparr>trace := trace w @ [e]\<rparr>"

definition info :: "message \<Rightarrow> world \<Rightarrow> world" where
  "info m w = log (Info m) w"

definition sleep :: "nat \<Rightarrow> world \<Rightarrow> world" where
  "sleep n w = log (Slept n) (w\<lparr>clock := clock w + n\<rparr>)"

definition boot :: "nat \<Rightarrow> world" where
  "boot t = \<lparr>clock = t, trace = []\<rparr>"

text \<open>The shell commands of a trace, in the order they were run.\<close>

fun commands_of :: "event list \<Rightarrow> command list" where
  "commands_of [] = []"
| "commands_of (Run c # es) = c # commands_of es"
| "commands_of (e # es) = commands_of es"

definition commands_run :: "world \<Rightarrow> command list" where
  "commands_run w = commands_of (trace w)"

subsection \<open>ShellCmd\<close>

text \<open>
  \<^verbatim>\<open>ShellCmd(cmd)(is_exception)\<close>: run the command, and raise \<^verbatim>\<open>CtlError\<close> when
  \<^verbatim>\<open>is_exception\<close> is set and the exit code is not 0.
\<close>

definition shell :: "env \<Rightarrow> command \<Rightarrow> bool \<Rightarrow> world \<Rightarrow> (error + string) \<times> world" where
  "shell env c is_exception w =
     (let (return_code, stdout) = run_command env c (clock w); w' = log (Run c) w
      in if is_exception \<and> return_code \<noteq> 0
         then (Inl (CtlError (ShellFailed c return_code)), w')
         else (Inr stdout, w'))"

definition shell_return :: "env \<Rightarrow> command \<Rightarrow> world \<Rightarrow> int \<times> world" where
  "shell_return env c w = (fst (run_command env c (clock w)), log (Run c) w)"

definition error_if_tool_is_missing :: "env \<Rightarrow> string \<Rightarrow> world \<Rightarrow> (error + unit) \<times> world" where
  "error_if_tool_is_missing env tool w =
     (let (rc, w') = shell_return env (Which tool) w
      in if rc \<noteq> 0 then (Inl (CtlError (ToolMissing tool)), w') else (Inr (), w'))"

section \<open>loop\_until\_timeout\<close>

text \<open>
  \<^verbatim>\<open>
  def loop_until_timeout(timeout, interval=1):
      def wrap(f):
          def inner(*args, **kwargs):
              current_time = time.time()
              expired = current_time + timeout
              while current_time < expired:
                  if f(*args, **kwargs):
                      return True
                  time.sleep(interval)
                  current_time = time.time()
              return False
  \<close>
  The decorated function may raise, may act on the world, and returns a truth value. With
  \<open>interval = 0\<close> and a predicate that stays false the loop of the model never ends, so
  the result is an \<open>option\<close> and \<open>None\<close> is "does not return". The start and stop
  commands use the default interval of one second; the half-second interval of
  \<^verbatim>\<open>StartUiCmd\<close> is not in the model.
\<close>

partial_function (option) loop_while ::
  "(world \<Rightarrow> (error + bool) \<times> world) \<Rightarrow> nat \<Rightarrow> nat \<Rightarrow> world \<Rightarrow> ((error + bool) \<times> world) option"
where
  "loop_while f interval expired w =
     (if clock w < expired then
        (case f w of
           (Inl e, w') \<Rightarrow> Some (Inl e, w')
         | (Inr b, w') \<Rightarrow>
             if b then Some (Inr True, w')
             else loop_while f interval expired (sleep interval w'))
      else Some (Inr False, w))"

definition loop_until_timeout ::
  "nat \<Rightarrow> nat \<Rightarrow> (world \<Rightarrow> (error + bool) \<times> world) \<Rightarrow> world \<Rightarrow> ((error + bool) \<times> world) option"
where
  "loop_until_timeout timeout interval f w = loop_while f interval (clock w + timeout) w"

text \<open>A predicate that reads the clock, records that it was called, and changes nothing else.\<close>

definition polled :: "(nat \<Rightarrow> bool) \<Rightarrow> world \<Rightarrow> (error + bool) \<times> world" where
  "polled P w = (Inr (P (clock w)), log (Polled (clock w)) w)"

text \<open>
  What \<open>n\<close> rounds of "call, get false, sleep" leave behind, when the call of round \<open>j\<close>
  records the event \<open>ev j\<close>.
\<close>

definition polls_trace :: "(nat \<Rightarrow> event) \<Rightarrow> nat \<Rightarrow> nat \<Rightarrow> event list" where
  "polls_trace ev interval n = concat (map (\<lambda>j. [ev j, Slept interval]) [0..<n])"

definition after_polls :: "(nat \<Rightarrow> event) \<Rightarrow> nat \<Rightarrow> nat \<Rightarrow> world \<Rightarrow> world" where
  "after_polls ev interval n w =
     w\<lparr>clock := clock w + n * interval, trace := trace w @ polls_trace ev interval n\<rparr>"

text \<open>
  A condition that becomes true at time \<open>t\<close> and stays true, and the first instant of the
  grid \<open>0, interval, 2 * interval, \<dots>\<close> that is not before \<open>t\<close>.
\<close>

definition true_from :: "nat \<Rightarrow> nat \<Rightarrow> bool" where
  "true_from t s = (t \<le> s)"

definition first_poll :: "nat \<Rightarrow> nat \<Rightarrow> nat" where
  "first_poll interval t = ((t + interval - 1) div interval) * interval"

section \<open>UseUserZstack\<close>











section \<open>The database upgrade\<close>

subsection \<open>check\_if\_management\_node\_has\_stopped\<close>

definition get_database_portal ::
  "env \<Rightarrow> world \<Rightarrow> (error + string \<times> string \<times> string \<times> string) \<times> world"
where
  "get_database_portal env w = (database_portal env, w)"

definition get_nodes :: "env \<Rightarrow> world \<Rightarrow> (error + node list) \<times> world" where
  "get_nodes env w = (registry env (clock w), log (Run MysqlQueryNodes) w)"

text \<open>
  \<^verbatim>\<open>
  def check():
      nodes = get_nodes()
      if nodes:
          node_ips = [n['hostname'] for n in nodes]
          raise CtlError('there are some management nodes%s are still running. ...' % node_ips)
  \<close>
\<close>

definition check :: "env \<Rightarrow> world \<Rightarrow> (error + unit) \<times> world" where
  "check env w =
     (case get_nodes env w of
        (Inl e, w1) \<Rightarrow> (Inl e, w1)
      | (Inr nodes, w1) \<Rightarrow>
          if nodes \<noteq> [] then (Inl (CtlError (NodesStillRunning (map hostname nodes))), w1)
          else (Inr (), w1))"

text \<open>
  \<^verbatim>\<open>
  for n in new_nodes:
      for o in nodes:
          if o['hostname'] == n['hostname'] and o['heartBeat'] != n['heartBeat']:
              raise CtlError("node[%s] is still Running! Its heart-beat changed from %s to %s ..." %
                             (n['hostname'], o['heartBeat'], n['heartBeat']))
  \<close>
\<close>

fun heartbeat_changed :: "node list \<Rightarrow> node list \<Rightarrow> ctl_error option" where
  "heartbeat_changed nodes [] = None"
| "heartbeat_changed nodes (n # new_nodes) =
     (case find (\<lambda>old. hostname old = hostname n \<and> heartBeat old \<noteq> heartBeat n) nodes of
        Some old \<Rightarrow> Some (NodeStillAlive (hostname n) (heartBeat old) (heartBeat n))
      | None \<Rightarrow> heartbeat_changed nodes new_nodes)"

definition bypass_check :: "env \<Rightarrow> world \<Rightarrow> (error + unit) \<times> world" where
  "bypass_check env w =
     (case get_nodes env w of
        (Inl e, w1) \<Rightarrow> (Inl e, w1)
      | (Inr nodes, w1) \<Rightarrow>
          if nodes \<noteq> [] then
            (case get_nodes env
                    (sleep 10 (info (SeemsNodesStillRunning (map hostname nodes)) w1)) of
               (Inl e, w2) \<Rightarrow> (Inl e, w2)
             | (Inr new_nodes, w2) \<Rightarrow>
                 (case heartbeat_changed nodes new_nodes of
                    Some e \<Rightarrow> (Inl (CtlError e), w2)
                  | None \<Rightarrow> (Inr (), w2)))
          else (Inr (), w1))"

definition check_if_management_node_has_stopped ::
  "env \<Rightarrow> bool \<Rightarrow> world \<Rightarrow> (error + unit) \<times> world"
where
  "check_if_management_node_has_stopped env force w =
     (case get_database_portal env w of
        (Inl e, w1) \<Rightarrow> (Inl e, w1)
      | (Inr _, w1) \<Rightarrow> if force then bypass_check env w1 else check env w1)"

subsection \<open>UpgradeDbCmd\<close>

text \<open>
  \<^verbatim>\<open>
  parser.add_argument('--force', ..., action='store_true', default=False)
  parser.add_argument('--no-backup', help='...', default=False)
  parser.add_argument('--dry-run', ..., action='store_true', default=False)
  \<close>
  \<^verbatim>\<open>--no-backup\<close> has no \<^verbatim>\<open>action\<close>: argparse stores the string that follows it, and
  \<^verbatim>\<open>False\<close> when the option is absent.
\<close>

datatype option_value = Default_False | Given string

fun truthy :: "option_value \<Rightarrow> bool" where
  "truthy Default_False = False"
| "truthy (Given s) = (s \<noteq> [])"

record upgrade_db_args =
  force :: bool
  no_backup :: option_value
  dry_run :: bool

text \<open>Sequencing two statements: an exception of the first skips the second.\<close>

definition and_then ::
  "(world \<Rightarrow> (error + 'a) \<times> world) \<Rightarrow> ('a \<Rightarrow> world \<Rightarrow> (error + 'b) \<times> world)
     \<Rightarrow> world \<Rightarrow> (error + 'b) \<times> world"
where
  "and_then m k w = (case m w of (Inl e, w') \<Rightarrow> (Inl e, w') | (Inr x, w') \<Rightarrow> k x w')"

definition get_db_url :: "env \<Rightarrow> world \<Rightarrow> (error + string) \<times> world" where
  "get_db_url env w = (db_url env, w)"

definition must_exist :: "env \<Rightarrow> path \<Rightarrow> ctl_error \<Rightarrow> world \<Rightarrow> (error + unit) \<times> world" where
  "must_exist env p e w =
     (if \<not> path_exists env p (clock w) then (Inl (CtlError e), w) else (Inr (), w))"

text \<open>\<^verbatim>\<open>needle in haystack\<close> for strings.\<close>

fun contains :: "string \<Rightarrow> string \<Rightarrow> bool" where
  "contains needle [] = (needle = [])"
| "contains needle (c # cs) =
     (take (length needle) (c # cs) = needle \<or> contains needle cs)"

definition backup_current_database ::
  "env \<Rightarrow> upgrade_db_args \<Rightarrow> world \<Rightarrow> (error + unit) \<times> world"
where
  "backup_current_database env args w =
     (if truthy (no_backup args) then (Inr (), w)
      else
        (case shell env MkdirDbBackup True (info StartBackupDatabase w) of
           (Inl e, w1) \<Rightarrow> (Inl e, w1)
         | (Inr _, w1) \<Rightarrow>
             (case shell env Mysqldump True w1 of
                (Inl e, w2) \<Rightarrow> (Inl e, w2)
              | (Inr _, w2) \<Rightarrow> (Inr (), info BackedUpDatabase w2))))"

definition create_schema_version_table_if_needed ::
  "env \<Rightarrow> world \<Rightarrow> (error + unit) \<times> world"
where
  "create_schema_version_table_if_needed env w =
     (case shell env ShowSchemaVersionTable True w of
        (Inl e, w1) \<Rightarrow> (Inl e, w1)
      | (Inr out, w1) \<Rightarrow>
          if contains ''schema_version'' out then (Inr (), w1)
          else
            (case shell env FlywayBaseline True (info InitializingVersionTable w1) of
               (Inl e, w2) \<Rightarrow> (Inl e, w2)
             | (Inr _, w2) \<Rightarrow> (Inr (), w2)))"

definition migrate :: "env \<Rightarrow> world \<Rightarrow> (error + unit) \<times> world" where
  "migrate env w =
     (case shell env FlywayMigrate True w of
        (Inl e, w1) \<Rightarrow> (Inl e, w1)
      | (Inr _, w1) \<Rightarrow> (Inr (), info UpgradedDatabase w1))"

text \<open>
  \<^verbatim>\<open>UpgradeDbCmd.run\<close> returns \<^verbatim>\<open>True\<close> after a dry run and \<^verbatim>\<open>None\<close> after a migration.
\<close>

definition upgrade_db_steps ::
  "env \<Rightarrow> upgrade_db_args \<Rightarrow> world \<Rightarrow> (error + bool option) \<times> world"
where
  "upgrade_db_steps env args =
     and_then (backup_current_database env args) (\<lambda>_.
     and_then (create_schema_version_table_if_needed env) (\<lambda>_.
     and_then (migrate env) (\<lambda>_ w. (Inr None, w))))"

text \<open>
  The first lines of \<^verbatim>\<open>UpgradeDbCmd.run\<close>, up to the call of
  \<^verbatim>\<open>ctl.check_if_management_node_has_stopped\<close>:
  \<^verbatim>\<open>
  error_if_tool_is_missing('mysqldump')
  error_if_tool_is_missing('mysql')
  db_url = ctl.get_db_url()
  ...
  db_hostname, db_port, db_user, db_password = ctl.get_database_portal()
  flyway_path = os.path.join(ctl.zstack_home, 'WEB-INF/classes/tools/flyway-3.2.1/flyway')
  if not os.path.exists(flyway_path):
      raise CtlError('cannot find %s. Have you run upgrade_management_node?' % flyway_path)
  upgrading_schema_dir = os.path.join(ctl.zstack_home, 'WEB-INF/classes/db/upgrade/')
  if not os.path.exists(upgrading_schema_dir):
      raise CtlError('cannot find %s. Have you run upgrade_management_node?' % upgrading_schema_dir)
  \<close>
\<close>

definition upgrade_db_preflight :: "env \<Rightarrow> world \<Rightarrow> (error + unit) \<times> world" where
  "upgrade_db_preflight env =
     and_then (error_if_tool_is_missing env ''mysqldump'') (\<lambda>_.
     and_then (error_if_tool_is_missing env ''mysql'') (\<lambda>_.
     and_then (get_db_url env) (\<lambda>db_url.
     and_then (get_database_portal env) (\<lambda>portal.
     and_then (must_exist env FlywayPath CannotFindFlyway) (\<lambda>_.
     must_exist env UpgradingSchemaDir CannotFindSchemaDir)))))"

text \<open>
  \<^verbatim>\<open>
  ctl.check_if_management_node_has_stopped(args.force)
  if args.dry_run:
      info('Dry run finished. Database could be upgraded. ')
      return True
  ...
  backup_current_database()
  create_schema_version_table_if_needed()
  migrate()
  \<close>
\<close>

definition upgrade_db_run ::
  "env \<Rightarrow> upgrade_db_args \<Rightarrow> world \<Rightarrow> (error + bool option) \<times> world"
where
  "upgrade_db_run env args =
     and_then (upgrade_db_preflight env) (\<lambda>_.
     and_then (check_if_management_node_has_stopped env (upgrade_db_args.force args)) (\<lambda>_.
       if dry_run args then (\<lambda>w. (Inr (Some True), info DryRunFinished w))
       else upgrade_db_steps env args))"

text \<open>
  The world after the forced check has sampled the node table twice: the two tool checks
  of the pre-flight, the first query, the message, the ten seconds of sleep, the second query.
\<close>

definition sampled_twice :: "node list \<Rightarrow> world \<Rightarrow> world" where
  "sampled_twice nodes w =
     w\<lparr>clock := clock w + 10,
       trace := trace w @
         [Run (Which ''mysqldump''), Run (Which ''mysql''), Run MysqlQueryNodes,
          Info (SeemsNodesStillRunning (map hostname nodes)), Slept 10, Run MysqlQueryNodes]\<rparr>"

section \<open>The management node\<close>

text \<open>
  \<^verbatim>\<open>get_management_node_pid()\<close> scans \<^verbatim>\<open>/proc\<close> for \<^verbatim>\<open>appName=zstack\<close> and falls back to
  the pid file; what it finds is the environment's answer at the time of the call. \<open>Some\<close>
  is a pid that Python takes as true.
\<close>

definition get_management_node_pid :: "env \<Rightarrow> world \<Rightarrow> (error + nat option) \<times> world" where
  "get_management_node_pid env w =
     (case management_node_pid env (clock w) of
        Inl e \<Rightarrow> (Inl e, w)
      | Inr pid \<Rightarrow> (Inr pid, log (PidLookup pid) w))"

text \<open>
  \<^verbatim>\<open>with on_error(msg): body\<close>: a \<^verbatim>\<open>CtlError\<close> of the body passes through, any other
  exception becomes \<^verbatim>\<open>error(...)\<close>, which prints and calls \<^verbatim>\<open>sys.exit(1)\<close>.
\<close>

definition on_error :: "(world \<Rightarrow> (error + 'a) \<times> world) \<Rightarrow> world \<Rightarrow> (error + 'a) \<times> world" where
  "on_error body w =
     (case body w of
        (Inl (CtlError e), w') \<Rightarrow> (Inl (CtlError e), w')
      | (Inl _, w') \<Rightarrow> (Inl (SystemExit 1), w')
      | (Inr x, w') \<Rightarrow> (Inr x, w'))"

subsection \<open>StopCmd\<close>

text \<open>
  \<^verbatim>\<open>
  def run(self, args):
      if args.host:
          self._stop_remote(args)
          return
      pid = get_management_node_pid()
      if not pid:
          info('the management node has been stopped')
          return
      timeout = 30
      if not args.force:
          @loop_until_timeout(timeout)
          def wait_stop():
              return get_management_node_pid() is None
          shell('bash %s' % os.path.join(ctl.zstack_home, self.STOP_SCRIPT))
          if wait_stop():
              info('successfully stopped management node')
              return
      pid = get_management_node_pid()
      if pid:
          if not args.force:
              info('unable to stop management node within %s seconds, kill it' % timeout)
          with on_error('unable to kill -9 %s' % pid):
              shell('kill -9 %s' % pid)
  \<close>
\<close>

record stop_args =
  host :: "string option"
  force :: bool

definition stop_remote :: "env \<Rightarrow> string \<Rightarrow> bool \<Rightarrow> world \<Rightarrow> (error + unit) \<times> world" where
  "stop_remote env h forced w =
     (case shell env (SshStopNode h forced) True w of
        (Inl e, w') \<Rightarrow> (Inl e, w')
      | (Inr _, w') \<Rightarrow> (Inr (), w'))"

definition wait_stop :: "env \<Rightarrow> world \<Rightarrow> (error + bool) \<times> world" where
  "wait_stop env w =
     (case get_management_node_pid env w of
        (Inl e, w') \<Rightarrow> (Inl e, w')
      | (Inr pid, w') \<Rightarrow> (Inr (pid = None), w'))"

text \<open>What \<^verbatim>\<open>shell('kill -9 %s' % pid)\<close> gives at a clock time.\<close>

definition kill_result :: "env \<Rightarrow> nat \<Rightarrow> nat \<Rightarrow> error + unit" where
  "kill_result env pid t =
     (if fst (run_command env (Kill9 pid) t) \<noteq> 0
      then Inl (CtlError (ShellFailed (Kill9 pid) (fst (run_command env (Kill9 pid) t))))
      else Inr ())"

text \<open>The last five lines of \<^verbatim>\<open>StopCmd.run\<close>.\<close>

definition kill_if_present :: "env \<Rightarrow> bool \<Rightarrow> nat \<Rightarrow> world \<Rightarrow> (error + unit) \<times> world" where
  "kill_if_present env forced timeout w =
     (case get_management_node_pid env w of
        (Inl e, w1) \<Rightarrow> (Inl e, w1)
      | (Inr None, w1) \<Rightarrow> (Inr (), w1)
      | (Inr (Some pid), w1) \<Rightarrow>
          (case on_error (shell env (Kill9 pid) True)
                  (if \<not> forced then info (UnableToStopKillIt timeout) w1 else w1) of
             (Inl e, w2) \<Rightarrow> (Inl e, w2)
           | (Inr _, w2) \<Rightarrow> (Inr (), w2)))"

definition stop_node_run :: "env \<Rightarrow> stop_args \<Rightarrow> world \<Rightarrow> ((error + unit) \<times> world) option" where
  "stop_node_run env args w =
     (case stop_args.host args of
        Some h \<Rightarrow> Some (stop_remote env h (stop_args.force args) w)
      | None \<Rightarrow>
          (case get_management_node_pid env w of
             (Inl e, w1) \<Rightarrow> Some (Inl e, w1)
           | (Inr None, w1) \<Rightarrow> Some (Inr (), info HasBeenStopped w1)
           | (Inr (Some pid), w1) \<Rightarrow>
               if \<not> stop_args.force args then
                 (case shell env ShutdownScript True w1 of
                    (Inl e, w2) \<Rightarrow> Some (Inl e, w2)
                  | (Inr _, w2) \<Rightarrow>
                      (case loop_until_timeout 30 1 (wait_stop env) w2 of
                         None \<Rightarrow> None
                       | Some (Inl e, w3) \<Rightarrow> Some (Inl e, w3)
                       | Some (Inr stopped, w3) \<Rightarrow>
                           if stopped then Some (Inr (), info SuccessfullyStopped w3)
                           else Some (kill_if_present env False 30 w3)))
               else Some (kill_if_present env True 30 w1)))"

text \<open>
  \<^verbatim>\<open>ctl.internal_run('stop_node')\<close>: the arguments are parsed from the empty string (no
  host, no force), the home directory and the account are looked up, then the command runs.
\<close>

definition internal_run_stop_node :: "env \<Rightarrow> world \<Rightarrow> ((error + unit) \<times> world) option" where
  "internal_run_stop_node env w =
     (case locate_command env ''stop_node'' of
        Some e \<Rightarrow> Some (Inl e, w)
      | None \<Rightarrow> stop_node_run env \<lparr>stop_args.host = None, force = False\<rparr> w)"

subsection \<open>StartCmd\<close>

text \<open>
  \<^verbatim>\<open>args.timeout\<close> is 300 or the string given on the command line; the field holds
  \<^verbatim>\<open>int(args.timeout)\<close>, \<open>None\<close> when the conversion raises \<^verbatim>\<open>ValueError\<close>. A negative
  number acts on the loop as 0 does.
\<close>

record start_args =
  host :: "string option"
  timeout :: "nat option"

definition start_remote :: "env \<Rightarrow> string \<Rightarrow> world \<Rightarrow> (error + unit) \<times> world" where
  "start_remote env h w =
     (case shell env (SshStartNode h) True (info StartRemoteMayTakeAWhile w) of
        (Inl e, w') \<Rightarrow> (Inl e, w')
      | (Inr _, w') \<Rightarrow> (Inr (), w'))"

definition check_root :: "env \<Rightarrow> world \<Rightarrow> (error + unit) \<times> world" where
  "check_root env w =
     (if getuser env \<noteq> ''root'' then (Inl (CtlError PleaseUseRoot), w) else (Inr (), w))"

definition check_8080 :: "env \<Rightarrow> world \<Rightarrow> (error + unit) \<times> world" where
  "check_8080 env w =
     (let (rc, w') = shell_return env Netstat8080 w
      in if rc = 0 then (Inl (CtlError Port8080Occupied), w') else (Inr (), w'))"

definition check_msyql :: "env \<Rightarrow> world \<Rightarrow> (error + unit) \<times> world" where
  "check_msyql env w =
     (case get_database_portal env w of
        (Inl e, w1) \<Rightarrow> (Inl e, w1)
      | (Inr (db_hostname, db_port, db_user, db_password), w1) \<Rightarrow>
          if \<not> ip_port_open env db_hostname db_port (clock w1)
          then (Inl (CtlError UnableToConnectMysql), w1)
          else
            (case on_error (shell env MysqlSelect1 True) w1 of
               (Inl e, w2) \<Rightarrow> (Inl e, w2)
             | (Inr _, w2) \<Rightarrow> (Inr (), w2)))"

definition check_rabbitmq :: "env \<Rightarrow> world \<Rightarrow> (error + unit) \<times> world" where
  "check_rabbitmq env =
     on_error (\<lambda>w.
       case rabbitmq_ips env of
         Inl e \<Rightarrow> (Inl e, w)
       | Inr ips \<Rightarrow>
           if ips = [] then (Inl (CtlError NoRabbitIps), w)
           else
             (case find (\<lambda>(key, ip). \<not> ip_port_open env ip ''5672'' (clock w)) ips of
                Some (key, ip) \<Rightarrow> (Inl (CtlError (CannotConnectRabbit ip)), w)
              | None \<Rightarrow> (Inr (), w)))"

definition prepare_setenv :: "env \<Rightarrow> world \<Rightarrow> (error + unit) \<times> world" where
  "prepare_setenv env w =
     (case ctl_env env ''CATALINA_OPTS'' of
        Inl e \<Rightarrow> (Inl e, w)
      | Inr co \<Rightarrow>
          let w1 = (case co of
                      None \<Rightarrow> w
                    | Some opts \<Rightarrow> if opts \<noteq> [] then info (UseCatalinaOpts opts) w else w)
          in if setenv_writable env then (Inr (), log WroteSetenv w1) else (Inl OSError, w1))"

definition start_mgmt_node :: "env \<Rightarrow> world \<Rightarrow> (error + unit) \<times> world" where
  "start_mgmt_node env w =
     (case shell env StartupScript True w of
        (Inl e, w1) \<Rightarrow> (Inl e, w1)
      | (Inr _, w1) \<Rightarrow> (Inr (), info StartedTomcat w1))"

text \<open>
  \<^verbatim>\<open>create_check_mgmt_node_command(timeout)\<close> looks for \<^verbatim>\<open>wget\<close>, then for \<^verbatim>\<open>curl\<close>, and
  returns \<^verbatim>\<open>None\<close> when it finds neither.
\<close>

definition create_check_mgmt_node_command ::
  "env \<Rightarrow> nat \<Rightarrow> world \<Rightarrow> command option \<times> world"
where
  "create_check_mgmt_node_command env n w =
     (let (rc, w1) = shell_return env (Which ''wget'') w
      in if rc = 0 then (Some (WgetReady n), w1)
         else
           (let (rc', w2) = shell_return env (Which ''curl'') w1
            in if rc' = 0 then (Some (CurlReady n), w2) else (None, w2)))"

text \<open>
  \<^verbatim>\<open>
  @loop_until_timeout(timeout)
  def check():
      if os.path.exists(boot_error_log):
          with open(boot_error_log, 'r') as fd:
              raise CtlError('the management server fails to boot; ...' % (log_path, fd.read()))
      cmd = create_check_mgmt_node_command(1)
      cmd(False)
      return cmd.return_code == 0
  if not check():
      raise CtlError('no management-node-ready message received within %s seconds, ...')
  \<close>
\<close>

definition check_ready :: "env \<Rightarrow> world \<Rightarrow> (error + bool) \<times> world" where
  "check_ready env w =
     (if path_exists env BootErrorLog (clock w)
      then (Inl (CtlError (BootFailed (boot_error_text env (clock w)))), w)
      else
        (case create_check_mgmt_node_command env 1 w of
           (None, w1) \<Rightarrow> (Inl TypeError, w1)
         | (Some cmd, w1) \<Rightarrow>
             (let (rc, w2) = shell_return env cmd w1 in (Inr (rc = 0), w2))))"

definition wait_mgmt_node_start ::
  "env \<Rightarrow> start_args \<Rightarrow> world \<Rightarrow> ((error + unit) \<times> world) option"
where
  "wait_mgmt_node_start env args w =
     (case start_args.timeout args of
        None \<Rightarrow> Some (Inl ValueError, w)
      | Some n \<Rightarrow>
          (case loop_until_timeout n 1 (check_ready env) w of
             None \<Rightarrow> None
           | Some (Inl e, w1) \<Rightarrow> Some (Inl e, w1)
           | Some (Inr ready, w1) \<Rightarrow>
               if \<not> ready then Some (Inl (CtlError (NoReadyMessageWithin n)), w1)
               else Some (Inr (), w1)))"

text \<open>
  From the user check to \<^verbatim>\<open>time.sleep(5)\<close>:
  \<^verbatim>\<open>
  user = getpass.getuser()
  if user != 'root':
      raise CtlError('please use sudo or root user')
  check_8080()
  check_msyql()
  check_rabbitmq()
  prepare_setenv()
  start_mgmt_node()
  #sleep a while, since zstack won't start up so quick
  time.sleep(5)
  \<close>
\<close>

definition boot_mgmt_node :: "env \<Rightarrow> world \<Rightarrow> (error + unit) \<times> world" where
  "boot_mgmt_node env =
     and_then (check_root env) (\<lambda>_.
     and_then (check_8080 env) (\<lambda>_.
     and_then (check_msyql env) (\<lambda>_.
     and_then (check_rabbitmq env) (\<lambda>_.
     and_then (prepare_setenv env) (\<lambda>_.
     and_then (start_mgmt_node env) (\<lambda>_ w. (Inr (), sleep 5 w)))))))"

text \<open>
  \<^verbatim>\<open>
  def run(self, args):
      if args.host:
          self._start_remote(args)
          return
      # clean the error log before booting
      boot_error_log = os.path.join(ctl.USER_ZSTACK_HOME_DIR, 'bootError.log')
      shell('rm -f %s' % boot_error_log)
      pid = get_management_node_pid()
      if pid:
          info('the management node[pid:%s] is already running' % pid)
          return
      ...
      try:
          wait_mgmt_node_start()
      except CtlError as e:
          try:
              info("the management node failed to start, stop it now ...")
              ctl.internal_run('stop_node')
          except:
              pass
          raise e
      info('successfully started management node')
  \<close>
\<close>

definition try_wait_mgmt_node_start ::
  "env \<Rightarrow> start_args \<Rightarrow> world \<Rightarrow> ((error + unit) \<times> world) option"
where
  "try_wait_mgmt_node_start env args w =
     (case wait_mgmt_node_start env args w of
        None \<Rightarrow> None
      | Some (Inr _, w1) \<Rightarrow> Some (Inr (), info SuccessfullyStarted w1)
      | Some (Inl (CtlError e), w1) \<Rightarrow>
          (case internal_run_stop_node env (info FailedToStartStopItNow w1) of
             None \<Rightarrow> None
           | Some (_, w2) \<Rightarrow> Some (Inl (CtlError e), w2))
      | Some (Inl e, w1) \<Rightarrow> Some (Inl e, w1))"

definition start_node_run :: "env \<Rightarrow> start_args \<Rightarrow> world \<Rightarrow> ((error + unit) \<times> world) option" where
  "start_node_run env args w =
     (case start_args.host args of
        Some h \<Rightarrow> Some (start_remote env h w)
      | None \<Rightarrow>
          (case shell env RmBootErrorLog True w of
             (Inl e, w1) \<Rightarrow> Some (Inl e, w1)
           | (Inr _, w1) \<Rightarrow>
               (case get_management_node_pid env w1 of
                  (Inl e, w2) \<Rightarrow> Some (Inl e, w2)
                | (Inr (Some pid), w2) \<Rightarrow> Some (Inr (), info (AlreadyRunning pid) w2)
                | (Inr None, w2) \<Rightarrow>
                    (case boot_mgmt_node env w2 of
                       (Inl e, w3) \<Rightarrow> Some (Inl e, w3)
                     | (Inr _, w3) \<Rightarrow> try_wait_mgmt_node_start env args w3))))"

section \<open>StartAllCmd and StopAllCmd\<close>

text \<open>
  \<^verbatim>\<open>ctl.internal_run(cmd_name, args)\<close>. \<^verbatim>\<open>stop_node\<close> and \<^verbatim>\<open>start_node\<close> run the functions
  above with the defaults of their parsers (the callers pass no argument); any other
  command is the environment's.
\<close>

definition internal_run ::
  "env \<Rightarrow> string \<Rightarrow> string \<Rightarrow> world \<Rightarrow> ((error + unit) \<times> world) option"
where
  "internal_run env cmd_name args w =
     (if cmd_name = ''stop_node'' then internal_run_stop_node env w
      else
        (case locate_command env cmd_name of
           Some e \<Rightarrow> Some (Inl e, w)
         | None \<Rightarrow>
             if cmd_name = ''start_node''
             then start_node_run env \<lparr>start_args.host = None, timeout = Some 300\<rparr> w
             else
               (let (raised, slept) = sub_command env cmd_name args (clock w);
                    w' = (log (SubCommand cmd_name args) w)\<lparr>clock := clock w + slept\<rparr>
                in Some (case raised of Some e \<Rightarrow> (Inl e, w') | None \<Rightarrow> (Inr (), w')))))"

text \<open>\<^verbatim>\<open>not exe or not os.path.exists(exe)\<close>\<close>

definition not_installed :: "env \<Rightarrow> string option \<Rightarrow> nat \<Rightarrow> bool" where
  "not_installed env exe t =
     (case exe of None \<Rightarrow> True | Some p \<Rightarrow> p = [] \<or> \<not> path_exists env (File p) t)"

text \<open>One statement after another: an exception of the first is the result of both.\<close>

definition then_step ::
  "(world \<Rightarrow> ((error + unit) \<times> world) option) \<Rightarrow> (world \<Rightarrow> ((error + unit) \<times> world) option)
     \<Rightarrow> world \<Rightarrow> ((error + unit) \<times> world) option"
where
  "then_step a b w =
     (case a w of
        None \<Rightarrow> None
      | Some (Inl e, w') \<Rightarrow> Some (Inl e, w')
      | Some (Inr _, w') \<Rightarrow> b w')"

text \<open>
  \<^verbatim>\<open>
  def stop_kairosdb():
      exe = ctl.get_env(InstallKairosdbCmd.KAIROSDB_EXEC)
      if not exe or not os.path.exists(exe):
          info('skip stopping kairosdb, it is not installed')
          return
      info(colored('Stopping kairosdb, it may take a few minutes...', 'blue'))
      ctl.internal_run('kairosdb', '--stop')
  def stop_mgmt_node():
      info(colored('Stopping ZStack management node, it may take a few minutes...', 'blue'))
      ctl.internal_run('stop_node')
  def stop_ui():
      virtualenv = '/var/lib/zstack/virtualenv/zstack-dashboard'
      if not os.path.exists(virtualenv):
          info('skip stopping web UI, it is not installed')
          return
      info(colored('Stopping ZStack web UI, it may take a few minutes...', 'blue'))
      ctl.internal_run('stop_ui')
  stop_ui()
  stop_mgmt_node()
  stop_kairosdb()
  stop_cassandra()
  \<close>
\<close>

definition stop_cassandra :: "env \<Rightarrow> world \<Rightarrow> ((error + unit) \<times> world) option" where
  "stop_cassandra env w =
     (case ctl_env env ''CASSANDRA_EXEC'' of
        Inl e \<Rightarrow> Some (Inl e, w)
      | Inr exe \<Rightarrow>
          if not_installed env exe (clock w) then Some (Inr (), info (SkipStopping ''cassandra'') w)
          else internal_run env ''cassandra'' ''--stop'' (info (Stopping ''cassandra'') w))"

definition stop_kairosdb :: "env \<Rightarrow> world \<Rightarrow> ((error + unit) \<times> world) option" where
  "stop_kairosdb env w =
     (case ctl_env env ''KAIROSDB_EXEC'' of
        Inl e \<Rightarrow> Some (Inl e, w)
      | Inr exe \<Rightarrow>
          if not_installed env exe (clock w) then Some (Inr (), info (SkipStopping ''kairosdb'') w)
          else internal_run env ''kairosdb'' ''--stop'' (info (Stopping ''kairosdb'') w))"

definition stop_mgmt_node :: "env \<Rightarrow> world \<Rightarrow> ((error + unit) \<times> world) option" where
  "stop_mgmt_node env w =
     internal_run env ''stop_node'' [] (info (Stopping ''ZStack management node'') w)"

definition stop_ui :: "env \<Rightarrow> world \<Rightarrow> ((error + unit) \<times> world) option" where
  "stop_ui env w =
     (if \<not> path_exists env DashboardVirtualenv (clock w)
      then Some (Inr (), info (SkipStopping ''web UI'') w)
      else internal_run env ''stop_ui'' [] (info (Stopping ''ZStack web UI'') w))"

definition stop_all_run :: "env \<Rightarrow> world \<Rightarrow> ((error + unit) \<times> world) option" where
  "stop_all_run env =
     then_step (stop_ui env)
       (then_step (stop_mgmt_node env)
          (then_step (stop_kairosdb env) (stop_cassandra env)))"

text \<open>
  \<^verbatim>\<open>StartAllCmd.run\<close> has the same shape: \<^verbatim>\<open>start_cassandra()\<close>, \<^verbatim>\<open>start_kairosdb()\<close> (both
  with \<^verbatim>\<open>'--start --wait-timeout 120'\<close>), \<^verbatim>\<open>start_mgmt_node()\<close>, \<^verbatim>\<open>start_ui()\<close>.
\<close>

definition start_cassandra :: "env \<Rightarrow> world \<Rightarrow> ((error + unit) \<times> world) option" where
  "start_cassandra env w =
     (case ctl_env env ''CASSANDRA_EXEC'' of
        Inl e \<Rightarrow> Some (Inl e, w)
      | Inr exe \<Rightarrow>
          if not_installed env exe (clock w) then Some (Inr (), info (SkipStarting ''cassandra'') w)
          else internal_run env ''cassandra'' ''--start --wait-timeout 120''
                 (info (Starting ''cassandra'') w))"

definition start_kairosdb :: "env \<Rightarrow> world \<Rightarrow> ((error + unit) \<times> world) option" where
  "start_kairosdb env w =
     (case ctl_env env ''KAIROSDB_EXEC'' of
        Inl e \<Rightarrow> Some (Inl e, w)
      | Inr exe \<Rightarrow>
          if not_installed env exe (clock w) then Some (Inr (), info (SkipStarting ''kairosdb'') w)
          else internal_run env ''kairosdb'' ''--start --wait-timeout 120''
                 (info (Starting ''kairosdb'') w))"

definition start_all_mgmt_node :: "env \<Rightarrow> world \<Rightarrow> ((error + unit) \<times> world) option" where
  "start_all_mgmt_node env w =
     internal_run env ''start_node'' [] (info (Starting ''ZStack management node'') w)"

definition start_ui :: "env \<Rightarrow> world \<Rightarrow> ((error + unit) \<times> world) option" where
  "start_ui env w =
     (if \<not> path_exists env DashboardVirtualenv (clock w)
      then Some (Inr (), info (SkipStarting ''web UI'') w)
      else internal_run env ''start_ui'' [] (info (Starting ''ZStack web UI'') w))"

definition start_all_run :: "env \<Rightarrow> world \<Rightarrow> ((error + unit) \<times> world) option" where
  "start_all_run env =
     then_step (start_cassandra env)
       (then_step (start_kairosdb env)
          (then_step (start_all_mgmt_node env) (start_ui env)))"

section \<open>Example environments\<close>

text \<open>
  An installation where nothing is wrong: every command exits with 0 (but the search for a
  listener on port 8080, which finds none), no management node runs, the node table is
  empty, and neither the UI nor the time-series store is installed.
\<close>

definition healthy :: env where
  "healthy =
     \<lparr>run_command = (\<lambda>c t. if c = Netstat8080 then (1, []) else (0, [])),
      management_node_pid = (\<lambda>t. Inr None),
      path_exists = (\<lambda>p t. p = FlywayPath \<or> p = UpgradingSchemaDir),
      boot_error_text = (\<lambda>t. []),
      getuser = ''root'',
      db_url = Inr ''jdbc:mysql://localhost:3306'',
      database_portal = Inr (''localhost'', ''3306'', ''zstack'', []),
      ip_port_open = (\<lambda>h p t. True),
      rabbitmq_ips = Inr [(''CloudBus.serverIp.0'', ''localhost'')],
      ctl_env = (\<lambda>name. Inr None),
      setenv_writable = True,
      registry = (\<lambda>t. Inr []),
      locate_command = (\<lambda>name. None),
      sub_command = (\<lambda>name args t. (None, 0))\<rparr>"

text \<open>The same with a management node running as process 42.\<close>

definition running :: env where
  "running = healthy\<lparr>management_node_pid := (\<lambda>t. Inr (Some 42))\<rparr>"




text \<open>
  Two rows of the node table, sampled before second 10 and from second 10 on: the heartbeat
  of host A stays, the heartbeat of host B moves.
\<close>

definition sample_before :: "node list" where
  "sample_before =
     [\<lparr>hostname = ''A'', heartBeat = ''2016-01-01 00:00:01''\<rparr>,
      \<lparr>hostname = ''B'', heartBeat = ''2016-01-01 00:00:01''\<rparr>]"

definition sample_after :: "node list" where
  "sample_after =
     [\<lparr>hostname = ''A'', heartBeat = ''2016-01-01 00:00:01''\<rparr>,
      \<lparr>hostname = ''B'', heartBeat = ''2016-01-01 00:00:09''\<rparr>]"

definition stale_rows :: env where
  "stale_rows = healthy\<lparr>registry := (\<lambda>t. Inr sample_before)\<rparr>"

definition one_node_alive :: env where
  "one_node_alive =
     healthy\<lparr>registry := (\<lambda>t. if t < 10 then Inr sample_before else Inr sample_after)\<rparr>"

definition mysqldump_missing :: env where
  "mysqldump_missing =
     stale_rows\<lparr>run_command := (\<lambda>c t. if c = Which ''mysqldump'' then (1, []) else (0, []))\<rparr>"

text \<open>
  A management node that goes away three seconds after it is asked to; one whose shutdown
  script fails; and one that comes up as process 42 but never answers the readiness
  request, and whose shutdown script fails.
\<close>

definition stops_after_3 :: env where
  "stops_after_3 =
     healthy\<lparr>management_node_pid := (\<lambda>t. if t < 3 then Inr (Some 42) else Inr None)\<rparr>"

definition shutdown_fails :: env where
  "shutdown_fails =
     running\<lparr>run_command :=
       (\<lambda>c t. if c = Netstat8080 \<or> c = ShutdownScript then (1, []) else (0, []))\<rparr>"

definition never_ready :: env where
  "never_ready =
     healthy\<lparr>run_command :=
               (\<lambda>c t. if c = Netstat8080 \<or> c = WgetReady 1 \<or> c = CurlReady 1
                         \<or> c = ShutdownScript
                      then (1, []) else (0, [])),
             management_node_pid := (\<lambda>t. if t = 0 then Inr None else Inr (Some 42))\<rparr>"

text \<open>
  A host with the web UI installed, no time-series store, and a management node that goes
  away three seconds after it is asked to.
\<close>

definition ui_installed :: env where
  "ui_installed = stops_after_3\<lparr>path_exists := (\<lambda>p t. p = DashboardVirtualenv)\<rparr>"

section \<open>Properties of the polling loop\<close>

lemma after_polls_0: "after_polls ev interval 0 w = w"
  by (simp add: after_polls_def polls_trace_def)

lemma after_polls_Suc:
  "sleep interval (log (ev n) (after_polls ev interval n w)) = after_polls ev interval (Suc n) w"
  by (simp add: after_polls_def polls_trace_def sleep_def log_def)

lemma clock_after_polls [simp]: "clock (after_polls ev interval n w) = clock w + n * interval"
  by (simp add: after_polls_def)

lemma loop_while_false_steps:
  assumes f: "\<And>j v. j < n \<Longrightarrow> clock v = clock w + j * interval \<Longrightarrow> f v = (Inr False, log (ev j) v)"
    and le: "\<And>j. j < n \<Longrightarrow> clock w + j * interval < expired"
  shows "loop_while f interval expired w
       = loop_while f interval expired (after_polls ev interval n w)"
  using assms
proof (induction n)
  case 0
  show ?case by (simp add: after_polls_0)
next
  case (Suc n)
  let ?v = "after_polls ev interval n w"
  have "loop_while f interval expired w = loop_while f interval expired ?v"
    using Suc.IH Suc.prems by simp
  also have "\<dots> = loop_while f interval expired (sleep interval (log (ev n) ?v))"
    using Suc.prems(1) [of n ?v] Suc.prems(2) [of n]
    by (subst loop_while.simps) simp
  finally show ?case by (simp add: after_polls_Suc)
qed

lemma loop_while_hit:
  assumes f: "\<And>j v. j < n \<Longrightarrow> clock v = clock w + j * interval \<Longrightarrow> f v = (Inr False, log (ev j) v)"
    and le: "\<And>j. j \<le> n \<Longrightarrow> clock w + j * interval < expired"
    and hit: "f (after_polls ev interval n w) = (Inr True, w')"
  shows "loop_while f interval expired w = Some (Inr True, w')"
proof -
  have "loop_while f interval expired w
      = loop_while f interval expired (after_polls ev interval n w)"
    using f le by (intro loop_while_false_steps) auto
  also have "\<dots> = Some (Inr True, w')"
    using hit le [of n] by (subst loop_while.simps) simp
  finally show ?thesis .
qed

lemma loop_while_expire:
  assumes f: "\<And>j v. j < n \<Longrightarrow> clock v = clock w + j * interval \<Longrightarrow> f v = (Inr False, log (ev j) v)"
    and le: "\<And>j. j < n \<Longrightarrow> clock w + j * interval < expired"
    and ge: "expired \<le> clock w + n * interval"
  shows "loop_while f interval expired w = Some (Inr False, after_polls ev interval n w)"
proof -
  have "loop_while f interval expired w
      = loop_while f interval expired (after_polls ev interval n w)"
    using f le by (intro loop_while_false_steps) auto
  also have "\<dots> = Some (Inr False, after_polls ev interval n w)"
    using ge by (subst loop_while.simps) simp
  finally show ?thesis .
qed

text \<open>
  The loop returns when the interval is positive and the polled function does not turn the
  clock back. An invariant \<open>Q\<close> of the function and of sleeping holds at the end, and what
  holds whenever the function answers true (\<open>R\<close>) holds after a true return.
\<close>

lemma loop_while_returns:
  assumes pos: "0 < interval"
    and inv: "\<And>v. Q v \<Longrightarrow> clock v \<le> clock (snd (f v)) \<and> Q (snd (f v))"
    and slp: "\<And>v. Q v \<Longrightarrow> Q (sleep interval v)"
    and hit: "\<And>v v'. Q v \<Longrightarrow> f v = (Inr True, v') \<Longrightarrow> R v'"
    and w: "Q w"
  shows "\<exists>r w'. loop_while f interval expired w = Some (r, w') \<and> Q w' \<and> (r = Inr True \<longrightarrow> R w')"
  using w
proof (induction "expired - clock w" arbitrary: w rule: less_induct)
  case less
  show ?case
  proof (cases "clock w < expired")
    case False
    then show ?thesis using less.prems by (subst loop_while.simps) simp
  next
    case True
    obtain r v where fv: "f w = (r, v)" by (cases "f w")
    have v: "clock w \<le> clock v" "Q v" using inv [OF less.prems] fv by simp_all
    show ?thesis
    proof (cases r)
      case (Inl e)
      then show ?thesis using True fv v by (subst loop_while.simps) simp
    next
      case (Inr b)
      show ?thesis
      proof (cases b)
        case True
        then have "R v" using hit [OF less.prems] fv Inr by simp
        then show ?thesis
          using \<open>clock w < expired\<close> fv v Inr True by (subst loop_while.simps) simp
      next
        case False
        have "expired - clock (sleep interval v) < expired - clock w"
          using \<open>clock w < expired\<close> v pos by (simp add: sleep_def log_def)
        from less.hyps [OF this slp [OF v(2)]]
        show ?thesis using \<open>clock w < expired\<close> fv Inr False by (subst loop_while.simps) simp
      qed
    qed
  qed
qed

text \<open>
  A polled function that takes no time and answers false as long as the clock is before the
  deadline: polled every second, the loop returns false exactly at the deadline.
\<close>

lemma loop_while_never:
  assumes f: "\<And>v. clock v < expired \<Longrightarrow> Q v \<Longrightarrow>
                \<exists>v'. f v = (Inr False, v') \<and> clock v' = clock v \<and> Q v'"
    and slp: "\<And>v. Q v \<Longrightarrow> Q (sleep 1 v)"
    and w: "Q w" "clock w \<le> expired"
  shows "\<exists>w'. loop_while f 1 expired w = Some (Inr False, w') \<and> clock w' = expired \<and> Q w'"
  using w
proof (induction "expired - clock w" arbitrary: w rule: less_induct)
  case less
  show ?case
  proof (cases "clock w < expired")
    case False
    then show ?thesis using less.prems by (subst loop_while.simps) simp
  next
    case True
    obtain v where fv: "f w = (Inr False, v)" "clock v = clock w" "Q v"
      using f [OF True less.prems(1)] by blast
    have "expired - clock (sleep 1 v) < expired - clock w"
      using True fv by (simp add: sleep_def log_def)
    moreover have "clock (sleep 1 v) \<le> expired"
      using True fv by (simp add: sleep_def log_def)
    ultimately show ?thesis
      using less.hyps [of "sleep 1 v"] slp [OF fv(3)] True fv
      by (subst loop_while.simps) simp
  qed
qed

lemma before_first_poll:
  assumes "0 < (i::nat)"
  shows "j < (t + i - 1) div i \<longleftrightarrow> j * i < t"
proof -
  have "(t + i - 1) div i \<le> j \<longleftrightarrow> (t + i - 1) div i < Suc j" by auto
  also have "\<dots> \<longleftrightarrow> t + i - 1 < Suc j * i"
    using assms by (simp only: div_less_iff_less_mult)
  also have "\<dots> \<longleftrightarrow> t \<le> j * i" using assms by auto
  finally show ?thesis by auto
qed

lemma first_poll_bounds:
  assumes "0 < i"
  shows "t \<le> first_poll i t" and "first_poll i t < t + i"
proof -
  let ?k = "(t + i - 1) div i"
  have "\<not> ?k * i < t" using before_first_poll [OF assms, of ?k t] by simp
  then show "t \<le> first_poll i t" by (simp add: first_poll_def)
  show "first_poll i t < t + i"
  proof (cases ?k)
    case 0
    then show ?thesis using assms by (simp add: first_poll_def)
  next
    case (Suc k')
    then have "k' < ?k" by simp
    then have "k' * i < t" using before_first_poll [OF assms] by simp
    then show ?thesis using Suc by (simp add: first_poll_def)
  qed
qed

lemma polls_trace_starts:
  "0 < n \<Longrightarrow> \<exists>evs. polls_trace ev interval n = ev 0 # evs"
  by (cases n) (simp_all add: polls_trace_def upt_rec)

text \<open>
  Claim C1, as the code has it. The loop calls the predicate at the start and then every
  \<open>I\<close> seconds, as long as the clock is before the deadline \<open>T\<close>. For a predicate that
  becomes true \<open>t\<close> seconds after the start, with \<open>T > 0\<close> and \<open>I > 0\<close>: the first event is
  the call at the start time; the loop returns; it returns true exactly when the first
  polling instant at or after \<open>t\<close> is before \<open>T\<close>; the time elapsed at a true return is
  that instant, which lies in \<open>[t, t + I)\<close>; and at a false return it is the first polling
  instant at or after \<open>T\<close>, which lies in \<open>[T, T + I)\<close>.
\<close>

theorem loop_until_timeout_first_poll:
  assumes T: "0 < T" and I: "0 < I"
  shows "\<exists>w'. loop_until_timeout T I (polled (true_from (clock w + t))) w
               = Some (Inr (first_poll I t < T), w')
          \<and> (\<exists>evs. trace w' = trace w @ Polled (clock w) # evs)
          \<and> clock w' = clock w + (if first_poll I t < T then first_poll I t else first_poll I T)
          \<and> t \<le> first_poll I t \<and> first_poll I t < t + I
          \<and> T \<le> first_poll I T \<and> first_poll I T < T + I"
proof -
  let ?f = "polled (true_from (clock w + t))"
  let ?ev = "\<lambda>j. Polled (clock w + j * I)"
  let ?k = "(t + I - 1) div I"
  let ?m = "(T + I - 1) div I"
  note b = first_poll_bounds [OF I]
  have miss: "?f v = (Inr False, log (?ev j) v)"
    if "j < ?k" "clock v = clock w + j * I" for j v
    using that before_first_poll [OF I, of j t] by (simp add: polled_def true_from_def)
  show ?thesis
  proof (cases "first_poll I t < T")
    case True
    let ?v = "after_polls ?ev I ?k w"
    let ?w' = "log (Polled (clock ?v)) ?v"
    have le: "clock w + j * I < clock w + T" if "j \<le> ?k" for j
    proof -
      have "j * I \<le> ?k * I" using that by (intro mult_le_mono1)
      moreover have "?k * I < T" using True by (simp add: first_poll_def)
      ultimately show ?thesis by linarith
    qed
    have hit: "?f ?v = (Inr True, ?w')"
      using b(1) [of t] by (simp add: polled_def true_from_def first_poll_def)
    have run: "loop_until_timeout T I ?f w = Some (Inr True, ?w')"
      unfolding loop_until_timeout_def
    proof (rule loop_while_hit [where ev = ?ev and n = ?k])
      show "?f v = (Inr False, log (?ev j) v)"
        if "j < ?k" "clock v = clock w + j * I" for j v
        using that by (rule miss)
      show "clock w + j * I < clock w + T" if "j \<le> ?k" for j
        using that by (rule le)
      show "?f ?v = (Inr True, ?w')" by (rule hit)
    qed
    have tr: "\<exists>evs. trace ?w' = trace w @ Polled (clock w) # evs"
    proof (cases "?k = 0")
      case True
      then show ?thesis by (simp add: log_def after_polls_def polls_trace_def)
    next
      case False
      then obtain evs where "polls_trace ?ev I ?k = ?ev 0 # evs"
        using polls_trace_starts [of ?k ?ev I] by auto
      then show ?thesis by (simp add: log_def after_polls_def)
    qed
    have ck: "clock ?w' = clock w + first_poll I t"
      by (simp add: log_def first_poll_def)
    show ?thesis using True run tr ck b by (intro exI [of _ ?w']) simp
  next
    case False
    let ?w' = "after_polls ?ev I ?m w"
    have mk: "j < ?k" if "j < ?m" for j
    proof -
      have "j * I < T" using that before_first_poll [OF I, of j T] by simp
      moreover have "T \<le> ?k * I" using False by (simp add: first_poll_def)
      ultimately have "j * I < ?k * I" by (rule less_le_trans)
      then show ?thesis by (rule mult_less_cancel2 [THEN iffD1, THEN conjunct2])
    qed
    have le: "clock w + j * I < clock w + T" if "j < ?m" for j
      using that before_first_poll [OF I, of j T] by simp
    have ge: "clock w + T \<le> clock w + ?m * I"
      using b(1) [of T] by (simp add: first_poll_def)
    have run: "loop_until_timeout T I ?f w = Some (Inr False, ?w')"
      unfolding loop_until_timeout_def
    proof (rule loop_while_expire [where ev = ?ev and n = ?m])
      show "?f v = (Inr False, log (?ev j) v)"
        if "j < ?m" "clock v = clock w + j * I" for j v
        using that mk by (intro miss) simp_all
      show "clock w + j * I < clock w + T" if "j < ?m" for j
        using that by (rule le)
      show "clock w + T \<le> clock w + ?m * I" by (rule ge)
    qed
    have "0 < ?m" using before_first_poll [OF I, of 0 T] T by simp
    then obtain evs where "polls_trace ?ev I ?m = ?ev 0 # evs"
      using polls_trace_starts [of ?m ?ev I] by auto
    then have tr: "\<exists>evs. trace ?w' = trace w @ Polled (clock w) # evs"
      by (simp add: after_polls_def)
    have ck: "clock ?w' = clock w + first_poll I T"
      by (simp add: first_poll_def)
    show ?thesis using False run tr ck b by (intro exI [of _ ?w']) simp
  qed
qed

text \<open>
  Claim C1, an instance: deadline 10, interval 3, true from second 7 on. The third retry,
  at second 9, succeeds.
\<close>

theorem loop_until_timeout_first_poll_witness:
  "(0::nat) < 10 \<and> (0::nat) < 3
     \<and> fst (the (loop_until_timeout 10 3 (polled (true_from (clock (boot 0) + 7))) (boot 0)))
         = Inr True
     \<and> clock (snd (the (loop_until_timeout 10 3 (polled (true_from (clock (boot 0) + 7))) (boot 0))))
         = clock (boot 0) + 9"
  using loop_until_timeout_first_poll [of 10 3 "boot 0" 7]
  by (auto simp add: first_poll_def)

text \<open>
  Claim C1 as stated fails: with deadline 10 and interval 4 the polls are at seconds 0, 4
  and 8. A predicate that becomes true at second 9, before the deadline, is never seen
  true: at second 12 the loop gives up and returns false.
\<close>

theorem loop_until_timeout_counterexample:
  "loop_until_timeout 10 4 (polled (true_from 9)) (boot 0)
     = Some (Inr False, \<lparr>clock = 12,
          trace = [Polled 0, Slept 4, Polled 4, Slept 4, Polled 8, Slept 4]\<rparr>)
   \<and> (9::nat) \<le> 10"
  by (simp add: loop_until_timeout_def loop_while.simps polled_def true_from_def boot_def
      sleep_def log_def)

section \<open>Properties of UseUserZstack\<close>






section \<open>Properties of the database upgrade\<close>

lemma shell_eq:
  "shell env c b w =
     (if b \<and> fst (run_command env c (clock w)) \<noteq> 0
      then (Inl (CtlError (ShellFailed c (fst (run_command env c (clock w))))), log (Run c) w)
      else (Inr (snd (run_command env c (clock w))), log (Run c) w))"
  by (simp add: shell_def split_beta Let_def)

lemma clock_log [simp]: "clock (log e w) = clock w"
  by (simp add: log_def)

lemma trace_log [simp]: "trace (log e w) = trace w @ [e]"
  by (simp add: log_def)

lemma commands_of_append: "commands_of (xs @ ys) = commands_of xs @ commands_of ys"
  by (induction xs rule: commands_of.induct) simp_all

lemma commands_run_log_Run [simp]: "commands_run (log (Run c) w) = commands_run w @ [c]"
  by (simp add: commands_run_def log_def commands_of_append)

lemmas upgrade_db_defs =
  upgrade_db_run_def upgrade_db_preflight_def upgrade_db_steps_def and_then_def
  error_if_tool_is_missing_def shell_return_def shell_eq get_db_url_def
  get_database_portal_def must_exist_def check_if_management_node_has_stopped_def check_def
  bypass_check_def get_nodes_def backup_current_database_def
  create_schema_version_table_if_needed_def migrate_def info_def sleep_def log_def

lemma upgrade_db_preflight_cases:
  "(\<exists>e. upgrade_db_preflight env w = (Inl e, log (Run (Which ''mysqldump'')) w))
   \<or> (\<exists>e. upgrade_db_preflight env w
          = (Inl e, log (Run (Which ''mysql'')) (log (Run (Which ''mysqldump'')) w)))
   \<or> upgrade_db_preflight env w
          = (Inr (), log (Run (Which ''mysql'')) (log (Run (Which ''mysqldump'')) w))"
  by (simp add: upgrade_db_preflight_def and_then_def error_if_tool_is_missing_def
      shell_return_def get_db_url_def get_database_portal_def must_exist_def log_def
      split: sum.splits)

lemma upgrade_db_preflight_passed:
  assumes "fst (upgrade_db_preflight env w) = Inr ()"
  shows "upgrade_db_preflight env w
       = (Inr (), w\<lparr>trace := trace w @ [Run (Which ''mysqldump''), Run (Which ''mysql'')]\<rparr>)"
    and "\<exists>portal. database_portal env = Inr portal"
proof -
  from assms upgrade_db_preflight_cases [of env w]
  show "upgrade_db_preflight env w
       = (Inr (), w\<lparr>trace := trace w @ [Run (Which ''mysqldump''), Run (Which ''mysql'')]\<rparr>)"
    by (auto simp add: log_def)
  from assms show "\<exists>portal. database_portal env = Inr portal"
    by (auto simp add: upgrade_db_preflight_def and_then_def error_if_tool_is_missing_def
        shell_return_def get_db_url_def get_database_portal_def must_exist_def log_def
        split: sum.splits if_splits)
qed

text \<open>
  Claim C2, as the code has it. Without \<^verbatim>\<open>--force\<close>, when the node table has a row, the
  upgrade fails and runs nothing but the two tool checks and the query: no backup, no
  baseline, no migration. The error is the one about nodes still running, listing their
  host names, when the checks before the query passed; otherwise it is the error of the
  check that failed.
\<close>

theorem upgrade_db_blocked_by_running_nodes:
  assumes nf: "\<not> upgrade_db_args.force args"
    and reg: "registry env (clock w) = Inr nodes"
    and ne: "nodes \<noteq> []"
  shows "\<exists>e w'. upgrade_db_run env args w = (Inl e, w')
           \<and> set (commands_run w') \<subseteq>
               set (commands_run w) \<union> {Which ''mysqldump'', Which ''mysql'', MysqlQueryNodes}
           \<and> (fst (upgrade_db_preflight env w) = Inr () \<longrightarrow>
                e = CtlError (NodesStillRunning (map hostname nodes))
                \<and> commands_run w' =
                    commands_run w @ [Which ''mysqldump'', Which ''mysql'', MysqlQueryNodes])"
proof -
  let ?w1 = "log (Run (Which ''mysqldump'')) w"
  let ?w2 = "log (Run (Which ''mysql'')) ?w1"
  from upgrade_db_preflight_cases [of env w]
  consider e where "upgrade_db_preflight env w = (Inl e, ?w1)"
    | e where "upgrade_db_preflight env w = (Inl e, ?w2)"
    | "upgrade_db_preflight env w = (Inr (), ?w2)"
    by blast
  then show ?thesis
  proof cases
    case 1
    then have "upgrade_db_run env args w = (Inl e, ?w1)"
      by (simp add: upgrade_db_run_def and_then_def)
    with 1 show ?thesis by auto
  next
    case 2
    then have "upgrade_db_run env args w = (Inl e, ?w2)"
      by (simp add: upgrade_db_run_def and_then_def)
    with 2 show ?thesis by auto
  next
    case 3
    then have "fst (upgrade_db_preflight env w) = Inr ()" by simp
    then obtain portal where "database_portal env = Inr portal"
      using upgrade_db_preflight_passed(2) by blast
    with 3 nf reg ne
    have "upgrade_db_run env args w
        = (Inl (CtlError (NodesStillRunning (map hostname nodes))), log (Run MysqlQueryNodes) ?w2)"
      by (simp add: upgrade_db_run_def and_then_def check_if_management_node_has_stopped_def
          get_database_portal_def check_def get_nodes_def)
    then show ?thesis by auto
  qed
qed

text \<open>
  Claim C2, an instance: two rows in the node table, nothing else wrong, no \<^verbatim>\<open>--force\<close>.
\<close>

theorem upgrade_db_blocked_by_running_nodes_witness:
  "\<not> upgrade_db_args.force \<lparr>upgrade_db_args.force = False, no_backup = Default_False, dry_run = False\<rparr>
   \<and> registry stale_rows (clock (boot 0)) = Inr sample_before
   \<and> sample_before \<noteq> []
   \<and> fst (upgrade_db_preflight stale_rows (boot 0)) = Inr ()
   \<and> fst (upgrade_db_run stale_rows
        \<lparr>upgrade_db_args.force = False, no_backup = Default_False, dry_run = False\<rparr> (boot 0))
       = Inl (CtlError (NodesStillRunning [''A'', ''B'']))"
proof -
  have pre: "fst (upgrade_db_preflight stale_rows (boot 0)) = Inr ()"
    by (simp add: upgrade_db_defs healthy_def stale_rows_def sample_before_def boot_def)
  have reg: "registry stale_rows (clock (boot 0)) = Inr sample_before"
    by (simp add: healthy_def stale_rows_def sample_before_def boot_def)
  have ne: "sample_before \<noteq> []" by (simp add: sample_before_def)
  from upgrade_db_blocked_by_running_nodes
    [of "\<lparr>upgrade_db_args.force = False, no_backup = Default_False, dry_run = False\<rparr>"
      stale_rows "boot 0" sample_before] pre reg ne
  show ?thesis by (auto simp add: sample_before_def)
qed

text \<open>
  Claim C2 as stated fails: with the same two rows in the node table and \<^verbatim>\<open>mysqldump\<close> not
  installed, the upgrade fails before it looks at the table, with the error of the missing
  tool.
\<close>

theorem upgrade_db_blocked_counterexample:
  "upgrade_db_run mysqldump_missing
     \<lparr>upgrade_db_args.force = False, no_backup = Default_False, dry_run = False\<rparr> (boot 0)
   = (Inl (CtlError (ToolMissing ''mysqldump'')),
      \<lparr>clock = 0, trace = [Run (Which ''mysqldump'')]\<rparr>)
   \<and> registry mysqldump_missing 0 = Inr sample_before
   \<and> length sample_before = 2"
  by (simp add: upgrade_db_defs healthy_def stale_rows_def mysqldump_missing_def
      sample_before_def boot_def)

lemma heartbeat_changed_None:
  "heartbeat_changed nodes new_nodes = None \<longleftrightarrow>
     (\<forall>n \<in> set new_nodes. \<forall>old \<in> set nodes.
        hostname old = hostname n \<longrightarrow> heartBeat old = heartBeat n)"
proof (induction new_nodes)
  case Nil
  show ?case by simp
next
  case (Cons n new_nodes)
  show ?case
  proof (cases "find (\<lambda>old. hostname old = hostname n \<and> heartBeat old \<noteq> heartBeat n) nodes")
    case None
    then have "\<forall>old \<in> set nodes. hostname old = hostname n \<longrightarrow> heartBeat old = heartBeat n"
      by (auto simp add: find_None_iff)
    with None Cons.IH show ?thesis by simp
  next
    case (Some old)
    then have "old \<in> set nodes" "hostname old = hostname n" "heartBeat old \<noteq> heartBeat n"
      by (auto simp add: find_Some_iff)
    with Some show ?thesis by auto
  qed
qed

lemma heartbeat_changed_Some:
  "heartbeat_changed nodes new_nodes = Some e \<Longrightarrow>
     \<exists>n \<in> set new_nodes. \<exists>old \<in> set nodes.
        hostname old = hostname n \<and> heartBeat old \<noteq> heartBeat n
        \<and> e = NodeStillAlive (hostname n) (heartBeat old) (heartBeat n)"
proof (induction new_nodes)
  case Nil
  then show ?case by simp
next
  case (Cons n new_nodes)
  show ?case
  proof (cases "find (\<lambda>old. hostname old = hostname n \<and> heartBeat old \<noteq> heartBeat n) nodes")
    case None
    with Cons show ?thesis by auto
  next
    case (Some old)
    then have "old \<in> set nodes" "hostname old = hostname n" "heartBeat old \<noteq> heartBeat n"
      by (auto simp add: find_Some_iff)
    with Some Cons.prems show ?thesis by auto
  qed
qed

lemma forced_gate:
  assumes pre: "fst (upgrade_db_preflight env w) = Inr ()"
    and s1: "registry env (clock w) = Inr nodes" and ne: "nodes \<noteq> []"
    and s2: "registry env (clock w + 10) = Inr new_nodes"
  shows "and_then (upgrade_db_preflight env)
           (\<lambda>_. and_then (check_if_management_node_has_stopped env True) k) w
       = (case heartbeat_changed nodes new_nodes of
            Some e \<Rightarrow> (Inl (CtlError e), sampled_twice nodes w)
          | None \<Rightarrow> k () (sampled_twice nodes w))"
proof -
  obtain portal where "database_portal env = Inr portal"
    using upgrade_db_preflight_passed(2) [OF pre] by blast
  then show ?thesis
    using upgrade_db_preflight_passed(1) [OF pre] s1 ne s2
    by (simp add: and_then_def check_if_management_node_has_stopped_def
        get_database_portal_def bypass_check_def get_nodes_def info_def sleep_def log_def
        sampled_twice_def split: option.splits)
qed

lemma steps_reach_migrate:
  assumes "\<forall>c \<in> {MkdirDbBackup, Mysqldump, ShowSchemaVersionTable, FlywayBaseline, FlywayMigrate}.
             fst (run_command env c (clock w)) = 0"
  shows "FlywayMigrate \<in> set (commands_run (snd (upgrade_db_steps env args w)))"
  using assms
  by (simp add: upgrade_db_steps_def and_then_def backup_current_database_def
      create_schema_version_table_if_needed_def migrate_def shell_eq info_def log_def
      commands_run_def commands_of_append)

text \<open>
  Claim C3, as the code has it. With \<^verbatim>\<open>--force\<close>, the checks before the query passed and
  rows in the node table: the table is read, ten seconds pass, the table is read again.
  If every node of the second sample has the heartbeat it had in the first, the upgrade
  goes on from there (a dry run ends here with \<^verbatim>\<open>True\<close>; otherwise backup, version table and
  migration follow, and the migration tool is run when these commands exit with 0). If some
  node's heartbeat differs, the upgrade fails with the error naming such a node and both
  heartbeats, having run nothing after the second query.
\<close>

theorem upgrade_db_forced:
  assumes force: "upgrade_db_args.force args"
    and pre: "fst (upgrade_db_preflight env w) = Inr ()"
    and s1: "registry env (clock w) = Inr nodes" and ne: "nodes \<noteq> []"
    and s2: "registry env (clock w + 10) = Inr new_nodes"
  shows "((\<forall>n \<in> set new_nodes. \<forall>old \<in> set nodes.
             hostname old = hostname n \<longrightarrow> heartBeat old = heartBeat n) \<longrightarrow>
           upgrade_db_run env args w =
             (if dry_run args then (Inr (Some True), info DryRunFinished (sampled_twice nodes w))
              else upgrade_db_steps env args (sampled_twice nodes w))
           \<and> (\<not> dry_run args
               \<and> (\<forall>c \<in> {MkdirDbBackup, Mysqldump, ShowSchemaVersionTable, FlywayBaseline,
                         FlywayMigrate}. fst (run_command env c (clock w + 10)) = 0) \<longrightarrow>
                FlywayMigrate \<in> set (commands_run (snd (upgrade_db_run env args w)))))
       \<and> (\<not> (\<forall>n \<in> set new_nodes. \<forall>old \<in> set nodes.
             hostname old = hostname n \<longrightarrow> heartBeat old = heartBeat n) \<longrightarrow>
           (\<exists>n \<in> set new_nodes. \<exists>old \<in> set nodes.
              hostname old = hostname n \<and> heartBeat old \<noteq> heartBeat n
              \<and> upgrade_db_run env args w =
                  (Inl (CtlError (NodeStillAlive (hostname n) (heartBeat old) (heartBeat n))),
                   sampled_twice nodes w)))"
proof -
  let ?k = "\<lambda>_::unit. if dry_run args then (\<lambda>w. (Inr (Some True), info DryRunFinished w))
              else upgrade_db_steps env args"
  have run: "upgrade_db_run env args w
      = (case heartbeat_changed nodes new_nodes of
            Some e \<Rightarrow> (Inl (CtlError e), sampled_twice nodes w)
          | None \<Rightarrow> ?k () (sampled_twice nodes w))"
    using forced_gate [OF pre s1 ne s2, of ?k] force by (simp add: upgrade_db_run_def)
  show ?thesis
  proof (cases "heartbeat_changed nodes new_nodes")
    case None
    then have same: "\<forall>n \<in> set new_nodes. \<forall>old \<in> set nodes.
             hostname old = hostname n \<longrightarrow> heartBeat old = heartBeat n"
      by (simp add: heartbeat_changed_None)
    have eq: "upgrade_db_run env args w =
             (if dry_run args then (Inr (Some True), info DryRunFinished (sampled_twice nodes w))
              else upgrade_db_steps env args (sampled_twice nodes w))"
      using run None by simp
    have "FlywayMigrate \<in> set (commands_run (snd (upgrade_db_run env args w)))"
      if "\<not> dry_run args"
        "\<forall>c \<in> {MkdirDbBackup, Mysqldump, ShowSchemaVersionTable, FlywayBaseline, FlywayMigrate}.
           fst (run_command env c (clock w + 10)) = 0"
      using that eq steps_reach_migrate [of env "sampled_twice nodes w" args]
      by (simp add: sampled_twice_def)
    with same eq show ?thesis by blast
  next
    case (Some e)
    from heartbeat_changed_Some [OF Some] run Some
    have "\<exists>n \<in> set new_nodes. \<exists>old \<in> set nodes.
              hostname old = hostname n \<and> heartBeat old \<noteq> heartBeat n
              \<and> upgrade_db_run env args w =
                  (Inl (CtlError (NodeStillAlive (hostname n) (heartBeat old) (heartBeat n))),
                   sampled_twice nodes w)"
      by auto
    moreover from this have "\<not> (\<forall>n \<in> set new_nodes. \<forall>old \<in> set nodes.
             hostname old = hostname n \<longrightarrow> heartBeat old = heartBeat n)"
      by blast
    ultimately show ?thesis by blast
  qed
qed

text \<open>
  Claim C3, an instance: two stale rows, read twice with the same heartbeats; the migration
  tool is run.
\<close>

theorem upgrade_db_forced_witness:
  "fst (upgrade_db_preflight stale_rows (boot 0)) = Inr ()
   \<and> registry stale_rows (clock (boot 0)) = Inr sample_before
   \<and> registry stale_rows (clock (boot 0) + 10) = Inr sample_before
   \<and> sample_before \<noteq> []
   \<and> FlywayMigrate \<in> set (commands_run (snd (upgrade_db_run stale_rows
        \<lparr>upgrade_db_args.force = True, no_backup = Default_False, dry_run = False\<rparr> (boot 0))))"
proof -
  have pre: "fst (upgrade_db_preflight stale_rows (boot 0)) = Inr ()"
    by (simp add: upgrade_db_defs healthy_def stale_rows_def sample_before_def boot_def)
  have reg: "registry stale_rows (clock (boot 0)) = Inr sample_before"
    "registry stale_rows (clock (boot 0) + 10) = Inr sample_before"
    by (simp_all add: healthy_def stale_rows_def sample_before_def boot_def)
  have ne: "sample_before \<noteq> []" by (simp add: sample_before_def)
  have same: "\<forall>n \<in> set sample_before. \<forall>old \<in> set sample_before.
      hostname old = hostname n \<longrightarrow> heartBeat old = heartBeat n"
    by (simp add: sample_before_def)
  have ok: "\<forall>c \<in> {MkdirDbBackup, Mysqldump, ShowSchemaVersionTable, FlywayBaseline, FlywayMigrate}.
      fst (run_command stale_rows c (clock (boot 0) + 10)) = 0"
    by (simp add: healthy_def stale_rows_def sample_before_def boot_def)
  have force: "upgrade_db_args.force
      \<lparr>upgrade_db_args.force = True, no_backup = Default_False, dry_run = False\<rparr>"
    by simp
  have nd: "\<not> dry_run
      \<lparr>upgrade_db_args.force = True, no_backup = Default_False, dry_run = False\<rparr>"
    by simp
  note upgrade_db_forced [OF force pre reg(1) ne reg(2), THEN conjunct1, THEN mp, OF same,
      THEN conjunct2, THEN mp, OF conjI [OF nd ok]]
  with pre reg ne show ?thesis by (intro conjI)
qed

text \<open>
  Claim C3 as stated fails: host A is in both samples with the same heartbeat, which by the
  claim lets the migration proceed, but the heartbeat of host B moved and the upgrade
  fails without running the migration.
\<close>

theorem upgrade_db_forced_counterexample:
  "upgrade_db_run one_node_alive
     \<lparr>upgrade_db_args.force = True, no_backup = Default_False, dry_run = False\<rparr> (boot 0)
   = (Inl (CtlError (NodeStillAlive ''B'' ''2016-01-01 00:00:01'' ''2016-01-01 00:00:09'')),
      \<lparr>clock = 10, trace =
         [Run (Which ''mysqldump''), Run (Which ''mysql''), Run MysqlQueryNodes,
          Info (SeemsNodesStillRunning [''A'', ''B'']), Slept 10, Run MysqlQueryNodes]\<rparr>)
   \<and> registry one_node_alive 0 = Inr sample_before
   \<and> registry one_node_alive 10 = Inr sample_after
   \<and> hostname (hd sample_before) = hostname (hd sample_after)
   \<and> heartBeat (hd sample_before) = heartBeat (hd sample_after)"
  by (simp add: upgrade_db_defs healthy_def one_node_alive_def sample_before_def sample_after_def boot_def)

lemma shell_trace: "trace (snd (shell env c b w)) = trace w @ [Run c]"
  by (simp add: shell_eq)

lemma backup_skipped:
  "truthy (no_backup args) \<Longrightarrow> backup_current_database env args w = (Inr (), w)"
  by (simp add: backup_current_database_def)

lemma backup_started:
  assumes "\<not> truthy (no_backup args)"
  shows "\<exists>evs. trace (snd (backup_current_database env args w))
           = trace w @ Info StartBackupDatabase # Run MkdirDbBackup # evs"
  using assms
  by (simp add: backup_current_database_def shell_eq info_def log_def)

lemma steps_without_backup:
  assumes "truthy (no_backup args)"
  shows "set (commands_run (snd (upgrade_db_steps env args w)))
       \<subseteq> set (commands_run w) \<union> {ShowSchemaVersionTable, FlywayBaseline, FlywayMigrate}"
  using assms
  by (auto simp add: upgrade_db_steps_def and_then_def backup_current_database_def
      create_schema_version_table_if_needed_def migrate_def shell_eq info_def log_def
      commands_run_def commands_of_append split_beta split: sum.splits if_splits)

lemma and_then_trace_prefix:
  assumes "\<And>w. \<exists>evs. trace (snd (m w)) = trace w @ evs"
    and "\<And>x w. \<exists>evs. trace (snd (k x w)) = trace w @ evs"
  shows "\<exists>evs. trace (snd (and_then m k w)) = trace w @ evs"
proof (cases "m w")
  case (Pair r w1)
  obtain evs where evs: "trace w1 = trace w @ evs" using assms(1) [of w] Pair by auto
  show ?thesis
  proof (cases r)
    case (Inl e)
    with Pair evs show ?thesis by (simp add: and_then_def)
  next
    case (Inr x)
    obtain evs' where "trace (snd (k x w1)) = trace w1 @ evs'" using assms(2) by blast
    with Pair Inr evs show ?thesis by (simp add: and_then_def)
  qed
qed

lemma create_schema_version_table_trace:
  "\<exists>evs. trace (snd (create_schema_version_table_if_needed env w)) = trace w @ evs"
  by (simp add: create_schema_version_table_if_needed_def shell_eq info_def log_def)

lemma migrate_trace: "\<exists>evs. trace (snd (migrate env w)) = trace w @ evs"
  by (simp add: migrate_def shell_eq info_def log_def)

lemma steps_with_backup:
  assumes "\<not> truthy (no_backup args)"
  shows "Run MkdirDbBackup \<in> set (trace (snd (upgrade_db_steps env args w)))"
proof -
  obtain evs where b: "trace (snd (backup_current_database env args w))
           = trace w @ Info StartBackupDatabase # Run MkdirDbBackup # evs"
    using backup_started [OF assms] by blast
  obtain r w1 where bw: "backup_current_database env args w = (r, w1)"
    by (cases "backup_current_database env args w")
  have rest: "\<exists>evs. trace (snd (and_then (create_schema_version_table_if_needed env)
            (\<lambda>_. and_then (migrate env) (\<lambda>_ w. (Inr None, w))) v)) = trace v @ evs" for v
    by (intro and_then_trace_prefix create_schema_version_table_trace migrate_trace) simp
  obtain evs' where "trace (snd (upgrade_db_steps env args w)) = trace w1 @ evs'"
    using rest [of w1] bw by (cases r) (auto simp add: upgrade_db_steps_def and_then_def)
  with b bw show ?thesis by simp
qed

text \<open>
  Claim C10. \<^verbatim>\<open>backup_current_database()\<close> returns at once, having done nothing, exactly
  when \<^verbatim>\<open>args.no_backup\<close> is true for Python. A string given on the command line is true
  exactly when it is not empty, so \<^verbatim>\<open>--no-backup false\<close> disables the backup, and the
  default \<^verbatim>\<open>False\<close> does not. Within the steps that follow the running-node check, the backup
  directory is created exactly when \<^verbatim>\<open>args.no_backup\<close> is not true.
\<close>

theorem no_backup_truthy_skips_backup:
  "(backup_current_database env args w = (Inr (), w)) = truthy (no_backup args)
   \<and> truthy (Given s) = (s \<noteq> [])
   \<and> truthy (Given ''false'')
   \<and> \<not> truthy Default_False
   \<and> (MkdirDbBackup \<notin> set (commands_run w) \<longrightarrow>
        (MkdirDbBackup \<in> set (commands_run (snd (upgrade_db_steps env args w))))
          = (\<not> truthy (no_backup args)))"
proof -
  have 1: "(backup_current_database env args w = (Inr (), w)) = truthy (no_backup args)"
  proof (cases "truthy (no_backup args)")
    case True
    then show ?thesis by (simp add: backup_skipped)
  next
    case False
    from backup_started [OF False, of env w]
    have "snd (backup_current_database env args w) \<noteq> w" by auto
    with False show ?thesis by auto
  qed
  have 2: "(MkdirDbBackup \<in> set (commands_run (snd (upgrade_db_steps env args w))))
          = (\<not> truthy (no_backup args))" if "MkdirDbBackup \<notin> set (commands_run w)"
  proof (cases "truthy (no_backup args)")
    case True
    with steps_without_backup [OF True, of env w] that show ?thesis by auto
  next
    case False
    have "Run c \<in> set es \<Longrightarrow> c \<in> set (commands_of es)" for c es
      by (induction es rule: commands_of.induct) auto
    with steps_with_backup [OF False, of env w] False show ?thesis
      by (simp add: commands_run_def)
  qed
  show ?thesis using 1 2 by simp
qed

text \<open>
  Claim C10, an instance: with \<^verbatim>\<open>--no-backup false\<close> the steps run the version-table query,
  the baseline and the migration only; without the option they create the backup directory.
\<close>

theorem no_backup_truthy_skips_backup_witness:
  "MkdirDbBackup \<notin> set (commands_run (boot 0))
   \<and> commands_run (snd (upgrade_db_steps healthy
        \<lparr>upgrade_db_args.force = False, no_backup = Given ''false'', dry_run = False\<rparr> (boot 0)))
      = [ShowSchemaVersionTable, FlywayBaseline, FlywayMigrate]
   \<and> MkdirDbBackup \<notin> set (commands_run (snd (upgrade_db_steps healthy
        \<lparr>upgrade_db_args.force = False, no_backup = Given ''false'', dry_run = False\<rparr> (boot 0))))
   \<and> MkdirDbBackup \<in> set (commands_run (snd (upgrade_db_steps healthy
        \<lparr>upgrade_db_args.force = False, no_backup = Default_False, dry_run = False\<rparr> (boot 0))))"
proof -
  have 0: "MkdirDbBackup \<notin> set (commands_run (boot 0))"
    by (simp add: boot_def commands_run_def)
  have 1: "commands_run (snd (upgrade_db_steps healthy
        \<lparr>upgrade_db_args.force = False, no_backup = Given ''false'', dry_run = False\<rparr> (boot 0)))
      = [ShowSchemaVersionTable, FlywayBaseline, FlywayMigrate]"
    by (simp add: upgrade_db_defs healthy_def boot_def commands_run_def)
  from no_backup_truthy_skips_backup [of healthy
      "\<lparr>upgrade_db_args.force = False, no_backup = Given ''false'', dry_run = False\<rparr>" "boot 0"]
    no_backup_truthy_skips_backup [of healthy
      "\<lparr>upgrade_db_args.force = False, no_backup = Default_False, dry_run = False\<rparr>" "boot 0"]
    0 1
  show ?thesis by simp
qed

section \<open>Properties of StartCmd and StopCmd\<close>

text \<open>
  Claim C7. \<^verbatim>\<open>stop_node\<close> on this machine (no \<^verbatim>\<open>--host\<close>), with or without \<^verbatim>\<open>--force\<close>, when
  no management node process is found: it prints that the node has been stopped and
  returns. Nothing else happens: no shutdown script, no kill, no waiting.
\<close>

theorem stop_when_stopped_is_noop:
  assumes "stop_args.host args = None"
    and "management_node_pid env (clock w) = Inr None"
  shows "stop_node_run env args w
       = Some (Inr (), w\<lparr>trace := trace w @ [PidLookup None, Info HasBeenStopped]\<rparr>)"
  using assms
  by (simp add: stop_node_run_def get_management_node_pid_def info_def log_def)

text \<open>Claim C7, an instance: no management node runs.\<close>

theorem stop_when_stopped_is_noop_witness:
  "stop_args.host \<lparr>stop_args.host = None, force = False\<rparr> = None
   \<and> management_node_pid healthy (clock (boot 0)) = Inr None
   \<and> stop_node_run healthy \<lparr>stop_args.host = None, force = False\<rparr> (boot 0)
       = Some (Inr (), \<lparr>clock = 0, trace = [PidLookup None, Info HasBeenStopped]\<rparr>)"
  using stop_when_stopped_is_noop [of "\<lparr>stop_args.host = None, force = False\<rparr>" healthy "boot 0"]
  by (simp add: healthy_def boot_def)

text \<open>
  Claim C6, as the code has it. \<^verbatim>\<open>start_node\<close> on this machine (no \<^verbatim>\<open>--host\<close>) when a
  management node process is found: it first removes the boot error log (the \<^verbatim>\<open>rm -f\<close>
  having exited with 0), then finds the process, prints that the node is already running
  and returns. No dependency is checked, no start script is run, nothing waits.
\<close>

theorem start_when_running:
  assumes "start_args.host args = None"
    and "fst (run_command env RmBootErrorLog (clock w)) = 0"
    and "management_node_pid env (clock w) = Inr (Some pid)"
  shows "start_node_run env args w
       = Some (Inr (), w\<lparr>trace := trace w @
            [Run RmBootErrorLog, PidLookup (Some pid), Info (AlreadyRunning pid)]\<rparr>)"
  using assms
  by (simp add: start_node_run_def shell_def get_management_node_pid_def info_def log_def
      split_beta)

text \<open>Claim C6, an instance: the management node runs as process 42.\<close>

theorem start_when_running_witness:
  "start_args.host \<lparr>start_args.host = None, timeout = Some 300\<rparr> = None
   \<and> fst (run_command running RmBootErrorLog (clock (boot 0))) = 0
   \<and> management_node_pid running (clock (boot 0)) = Inr (Some 42)
   \<and> start_node_run running \<lparr>start_args.host = None, timeout = Some 300\<rparr> (boot 0)
       = Some (Inr (), \<lparr>clock = 0, trace =
            [Run RmBootErrorLog, PidLookup (Some 42), Info (AlreadyRunning 42)]\<rparr>)"
  using start_when_running [of "\<lparr>start_args.host = None, timeout = Some 300\<rparr>" running "boot 0" 42]
  by (simp add: running_def healthy_def boot_def)

text \<open>
  Claim C6 as stated fails: started on a running node, the command is not free of side
  effects. It runs one shell command, which removes the boot error log.
\<close>

theorem start_when_running_counterexample:
  "commands_run (snd (the (start_node_run running
      \<lparr>start_args.host = None, timeout = Some 300\<rparr> (boot 0)))) = [RmBootErrorLog]
   \<and> management_node_pid running 0 = Inr (Some 42)"
  by (simp add: start_node_run_def shell_eq get_management_node_pid_def info_def log_def
      running_def healthy_def boot_def commands_run_def)

lemma wait_stop_present:
  "management_node_pid env (clock v) = Inr (Some q) \<Longrightarrow>
     wait_stop env v = (Inr False, log (PidLookup (Some q)) v)"
  by (simp add: wait_stop_def get_management_node_pid_def)

lemma wait_stop_gone:
  "management_node_pid env (clock v) = Inr None \<Longrightarrow>
     wait_stop env v = (Inr True, log (PidLookup None) v)"
  by (simp add: wait_stop_def get_management_node_pid_def)

lemma kill_if_present_eq:
  assumes "management_node_pid env (clock v) = Inr found"
  shows "kill_if_present env forced n v =
     (case found of
        None \<Rightarrow> (Inr (), log (PidLookup None) v)
      | Some q \<Rightarrow>
          (kill_result env q (clock v),
           v\<lparr>trace := trace v @ PidLookup (Some q) #
                (if forced then [] else [Info (UnableToStopKillIt n)]) @ [Run (Kill9 q)]\<rparr>))"
  using assms
  by (simp add: kill_if_present_def get_management_node_pid_def on_error_def shell_eq
      kill_result_def info_def log_def split: option.splits)

lemma graceful_loop:
  assumes obs: "\<And>k. k \<le> 30 \<Longrightarrow> management_node_pid env (clock v + k) = Inr (pids k)"
    and k0: "k0 < 30" "pids k0 = None" "\<forall>j<k0. pids j \<noteq> None"
  shows "loop_until_timeout 30 1 (wait_stop env) v
       = Some (Inr True, log (PidLookup None) (after_polls (\<lambda>j. PidLookup (pids j)) 1 k0 v))"
  unfolding loop_until_timeout_def
proof (rule loop_while_hit [where ev = "\<lambda>j. PidLookup (pids j)" and n = k0])
  show "wait_stop env u = (Inr False, log (PidLookup (pids j)) u)"
    if "j < k0" "clock u = clock v + j * 1" for j u
  proof -
    from that k0 obtain q where "pids j = Some q" by auto
    moreover have "management_node_pid env (clock u) = Inr (pids j)"
      using obs [of j] that k0 by simp
    ultimately show ?thesis by (simp add: wait_stop_present)
  qed
  show "clock v + j * 1 < clock v + 30" if "j \<le> k0" for j
    using that k0 by simp
  show "wait_stop env (after_polls (\<lambda>j. PidLookup (pids j)) 1 k0 v)
      = (Inr True, log (PidLookup None) (after_polls (\<lambda>j. PidLookup (pids j)) 1 k0 v))"
    using obs [of k0] k0 by (intro wait_stop_gone) simp
qed

lemma stubborn_loop:
  assumes obs: "\<And>k. k \<le> 30 \<Longrightarrow> management_node_pid env (clock v + k) = Inr (pids k)"
    and all: "\<forall>j<30. pids j \<noteq> None"
  shows "loop_until_timeout 30 1 (wait_stop env) v
       = Some (Inr False, after_polls (\<lambda>j. PidLookup (pids j)) 1 30 v)"
  unfolding loop_until_timeout_def
proof (rule loop_while_expire [where ev = "\<lambda>j. PidLookup (pids j)" and n = 30])
  show "wait_stop env u = (Inr False, log (PidLookup (pids j)) u)"
    if "j < 30" "clock u = clock v + j * 1" for j u
  proof -
    from that all obtain q where "pids j = Some q" by auto
    moreover have "management_node_pid env (clock u) = Inr (pids j)"
      using obs [of j] that by simp
    ultimately show ?thesis by (simp add: wait_stop_present)
  qed
  show "clock v + j * 1 < clock v + 30" if "j < 30" for j
    using that by simp
  show "clock v + 30 \<le> clock v + 30 * 1" by simp
qed

text \<open>
  Claim C5, as the code has it. \<^verbatim>\<open>stop_node\<close> on this machine finds the management node
  as process \<open>p\<close>; \<open>pids k\<close> is what the process lookup finds \<open>k\<close> seconds later. Without
  \<^verbatim>\<open>--force\<close> the shutdown script is run first. When it exits with 0 the lookup is repeated
  every second, for at most 30 lookups: if lookup \<open>k0 < 30\<close> is the first to find nothing,
  the command returns after \<open>k0\<close> seconds without a kill; if all 30 find the process, a last
  lookup follows at second 30 and, if it still finds a process, that process is killed with
  \<^verbatim>\<open>kill -9\<close>. When the shutdown script exits with another code, the command fails with that
  error, without any lookup or kill. With \<^verbatim>\<open>--force\<close> there is no shutdown script and no
  waiting: the process is looked up again and killed.
\<close>

theorem stop_polls_then_kills:
  assumes local: "stop_args.host args = None"
    and obs: "\<And>k. k \<le> 30 \<Longrightarrow> management_node_pid env (clock w + k) = Inr (pids k)"
    and present: "pids 0 = Some p"
  shows "(\<not> stop_args.force args \<and> fst (run_command env ShutdownScript (clock w)) = 0
            \<and> k0 < 30 \<and> pids k0 = None \<and> (\<forall>j<k0. pids j \<noteq> None) \<longrightarrow>
          stop_node_run env args w =
            Some (Inr (),
              w\<lparr>clock := clock w + k0,
                trace := trace w @ PidLookup (Some p) # Run ShutdownScript #
                  polls_trace (\<lambda>j. PidLookup (pids j)) 1 k0 @
                  [PidLookup None, Info SuccessfullyStopped]\<rparr>))
       \<and> (\<not> stop_args.force args \<and> fst (run_command env ShutdownScript (clock w)) = 0
            \<and> (\<forall>j<30. pids j \<noteq> None) \<longrightarrow>
          stop_node_run env args w =
            Some (case pids 30 of None \<Rightarrow> Inr () | Some q \<Rightarrow> kill_result env q (clock w + 30),
              w\<lparr>clock := clock w + 30,
                trace := trace w @ PidLookup (Some p) # Run ShutdownScript #
                  polls_trace (\<lambda>j. PidLookup (pids j)) 1 30 @
                  PidLookup (pids 30) #
                  (case pids 30 of None \<Rightarrow> []
                   | Some q \<Rightarrow> [Info (UnableToStopKillIt 30), Run (Kill9 q)])\<rparr>))
       \<and> (\<not> stop_args.force args \<and> fst (run_command env ShutdownScript (clock w)) \<noteq> 0 \<longrightarrow>
          stop_node_run env args w =
            Some (Inl (CtlError (ShellFailed ShutdownScript
                         (fst (run_command env ShutdownScript (clock w))))),
              w\<lparr>trace := trace w @ [PidLookup (Some p), Run ShutdownScript]\<rparr>))
       \<and> (stop_args.force args \<longrightarrow>
          stop_node_run env args w =
            Some (kill_result env p (clock w),
              w\<lparr>trace := trace w @ [PidLookup (Some p), PidLookup (Some p), Run (Kill9 p)]\<rparr>))"
proof -
  let ?w1 = "log (PidLookup (Some p)) w"
  let ?w2 = "log (Run ShutdownScript) ?w1"
  let ?ev = "\<lambda>j. PidLookup (pids j)"
  have now: "management_node_pid env (clock w) = Inr (Some p)"
    using obs [of 0] present by simp
  have obs2: "management_node_pid env (clock ?w2 + k) = Inr (pids k)" if "k \<le> 30" for k
    using obs [OF that] by simp
  have graceful: "stop_node_run env args w =
            Some (Inr (),
              w\<lparr>clock := clock w + k0,
                trace := trace w @ PidLookup (Some p) # Run ShutdownScript #
                  polls_trace ?ev 1 k0 @ [PidLookup None, Info SuccessfullyStopped]\<rparr>)"
    if "\<not> stop_args.force args" "fst (run_command env ShutdownScript (clock w)) = 0"
      "k0 < 30" "pids k0 = None" "\<forall>j<k0. pids j \<noteq> None"
    using local now that(1,2) graceful_loop [of env ?w2 pids k0, OF obs2 that(3,4,5)]
    by (simp add: stop_node_run_def get_management_node_pid_def shell_eq after_polls_def
        info_def log_def)
  have escalate: "stop_node_run env args w =
            Some (case pids 30 of None \<Rightarrow> Inr () | Some q \<Rightarrow> kill_result env q (clock w + 30),
              w\<lparr>clock := clock w + 30,
                trace := trace w @ PidLookup (Some p) # Run ShutdownScript #
                  polls_trace ?ev 1 30 @ PidLookup (pids 30) #
                  (case pids 30 of None \<Rightarrow> []
                   | Some q \<Rightarrow> [Info (UnableToStopKillIt 30), Run (Kill9 q)])\<rparr>)"
    if "\<not> stop_args.force args" "fst (run_command env ShutdownScript (clock w)) = 0"
      "\<forall>j<30. pids j \<noteq> None"
  proof -
    let ?w3 = "after_polls ?ev 1 30 ?w2"
    have "management_node_pid env (clock ?w3) = Inr (pids 30)"
      using obs [of 30] by simp
    from kill_if_present_eq [OF this, of False 30]
    show ?thesis
      using local now that(1,2) stubborn_loop [of env ?w2 pids, OF obs2 that(3)]
      by (simp add: stop_node_run_def get_management_node_pid_def shell_eq after_polls_def
          log_def split: option.splits)
  qed
  have failed: "stop_node_run env args w =
            Some (Inl (CtlError (ShellFailed ShutdownScript
                         (fst (run_command env ShutdownScript (clock w))))),
              w\<lparr>trace := trace w @ [PidLookup (Some p), Run ShutdownScript]\<rparr>)"
    if "\<not> stop_args.force args" "fst (run_command env ShutdownScript (clock w)) \<noteq> 0"
    using local now that
    by (simp add: stop_node_run_def get_management_node_pid_def shell_eq log_def)
  have forced: "stop_node_run env args w =
            Some (kill_result env p (clock w),
              w\<lparr>trace := trace w @ [PidLookup (Some p), PidLookup (Some p), Run (Kill9 p)]\<rparr>)"
    if "stop_args.force args"
  proof -
    have "management_node_pid env (clock ?w1) = Inr (Some p)" using now by simp
    from kill_if_present_eq [OF this, of True 30]
    show ?thesis using local now that
      by (simp add: stop_node_run_def get_management_node_pid_def log_def)
  qed
  show ?thesis using graceful escalate failed forced by blast
qed

text \<open>
  Claim C5, two instances: a node that is gone at the fourth lookup, three seconds after
  the shutdown script, and a forced stop of a running node.
\<close>

theorem stop_polls_then_kills_witness:
  "stop_node_run stops_after_3 \<lparr>stop_args.host = None, force = False\<rparr> (boot 0)
     = Some (Inr (),
         \<lparr>clock = 3,
          trace = [PidLookup (Some 42), Run ShutdownScript,
                   PidLookup (Some 42), Slept 1, PidLookup (Some 42), Slept 1,
                   PidLookup (Some 42), Slept 1, PidLookup None, Info SuccessfullyStopped]\<rparr>)
   \<and> stop_node_run running \<lparr>stop_args.host = None, force = True\<rparr> (boot 0)
     = Some (Inr (),
         \<lparr>clock = 0, trace = [PidLookup (Some 42), PidLookup (Some 42), Run (Kill9 42)]\<rparr>)"
proof -
  let ?pids = "\<lambda>k::nat. if k < 3 then Some (42::nat) else None"
  have obs: "management_node_pid stops_after_3 (clock (boot 0) + k) = Inr (?pids k)"
    if "k \<le> 30" for k
    by (simp add: healthy_def running_def stops_after_3_def boot_def)
  have obs': "management_node_pid running (clock (boot 0) + k) = Inr (Some 42)"
    if "k \<le> 30" for k
    by (simp add: healthy_def running_def stops_after_3_def boot_def)
  have 1: "stop_node_run stops_after_3 \<lparr>stop_args.host = None, force = False\<rparr> (boot 0)
     = Some (Inr (),
         \<lparr>clock = 3,
          trace = [PidLookup (Some 42), Run ShutdownScript,
                   PidLookup (Some 42), Slept 1, PidLookup (Some 42), Slept 1,
                   PidLookup (Some 42), Slept 1, PidLookup None, Info SuccessfullyStopped]\<rparr>)"
    using stop_polls_then_kills
      [of "\<lparr>stop_args.host = None, force = False\<rparr>" stops_after_3 "boot 0" ?pids 42 3, OF _ obs]
    by (simp add: healthy_def running_def stops_after_3_def boot_def polls_trace_def upt_rec)
  have 2: "stop_node_run running \<lparr>stop_args.host = None, force = True\<rparr> (boot 0)
     = Some (Inr (),
         \<lparr>clock = 0, trace = [PidLookup (Some 42), PidLookup (Some 42), Run (Kill9 42)]\<rparr>)"
    using stop_polls_then_kills
      [of "\<lparr>stop_args.host = None, force = True\<rparr>" running "boot 0" "\<lambda>k. Some 42" 42 0,
        OF _ obs']
    by (simp add: healthy_def running_def stops_after_3_def boot_def kill_result_def)
  from 1 2 show ?thesis by (rule conjI)
qed

text \<open>
  Claim C5 as stated fails: the shutdown script of a running node exits with 1, and
  \<^verbatim>\<open>stop_node\<close> without \<^verbatim>\<open>--force\<close> fails at once. The process is never polled, and never
  killed.
\<close>

theorem stop_polls_counterexample:
  "stop_node_run shutdown_fails \<lparr>stop_args.host = None, force = False\<rparr> (boot 0)
     = Some (Inl (CtlError (ShellFailed ShutdownScript 1)),
         \<lparr>clock = 0, trace = [PidLookup (Some 42), Run ShutdownScript]\<rparr>)
   \<and> management_node_pid shutdown_fails 0 = Inr (Some 42)"
  by (simp add: stop_node_run_def get_management_node_pid_def shell_eq log_def healthy_def running_def shutdown_fails_def boot_def)

lemma check_ready_false:
  assumes "\<not> path_exists env BootErrorLog (clock v)"
    and "fst (run_command env (Which ''wget'') (clock v)) = 0
         \<or> fst (run_command env (Which ''curl'') (clock v)) = 0"
    and "fst (run_command env (WgetReady 1) (clock v)) \<noteq> 0"
    and "fst (run_command env (CurlReady 1) (clock v)) \<noteq> 0"
  shows "\<exists>evs. check_ready env v = (Inr False, v\<lparr>trace := trace v @ evs\<rparr>)"
  using assms
  by (auto simp add: check_ready_def create_check_mgmt_node_command_def shell_return_def
      log_def Let_def)

lemma wait_times_out:
  assumes T: "start_args.timeout args = Some T"
    and window: "\<And>t. clock w \<le> t \<Longrightarrow> t < clock w + T \<Longrightarrow>
        \<not> path_exists env BootErrorLog t
        \<and> (fst (run_command env (Which ''wget'') t) = 0
            \<or> fst (run_command env (Which ''curl'') t) = 0)
        \<and> fst (run_command env (WgetReady 1) t) \<noteq> 0
        \<and> fst (run_command env (CurlReady 1) t) \<noteq> 0"
  shows "\<exists>w1. wait_mgmt_node_start env args w
           = Some (Inl (CtlError (NoReadyMessageWithin T)), w1)
         \<and> clock w1 = clock w + T"
proof -
  let ?Q = "\<lambda>v. clock w \<le> clock v"
  have "\<exists>w1. loop_while (check_ready env) 1 (clock w + T) w = Some (Inr False, w1)
          \<and> clock w1 = clock w + T \<and> ?Q w1"
  proof (rule loop_while_never [where Q = ?Q])
    show "\<exists>v'. check_ready env v = (Inr False, v') \<and> clock v' = clock v \<and> clock w \<le> clock v'"
      if "clock v < clock w + T" "clock w \<le> clock v" for v
    proof -
      from window [OF that(2) that(1)] check_ready_false [of env v]
      obtain evs where "check_ready env v = (Inr False, v\<lparr>trace := trace v @ evs\<rparr>)"
        by blast
      with that show ?thesis by simp
    qed
    show "clock w \<le> clock (sleep 1 v)" if "clock w \<le> clock v" for v
      using that by (simp add: sleep_def log_def)
  qed simp_all
  then show ?thesis using T
    by (auto simp add: wait_mgmt_node_start_def loop_until_timeout_def)
qed

lemma kill_if_present_trace:
  "\<exists>r v' evs. kill_if_present env forced n v = (r, v') \<and> trace v' = trace v @ evs
       \<and> (r = Inr () \<longrightarrow> PidLookup None \<in> set evs \<or> (\<exists>q. Run (Kill9 q) \<in> set evs))"
proof (cases "management_node_pid env (clock v)")
  case (Inl e)
  then show ?thesis by (simp add: kill_if_present_def get_management_node_pid_def)
next
  case (Inr found)
  show ?thesis
  proof (cases found)
    case None
    with kill_if_present_eq [OF Inr, of forced n] show ?thesis by simp
  next
    case (Some q)
    with kill_if_present_eq [OF Inr, of forced n] show ?thesis by auto
  qed
qed

lemma wait_stop_loop_returns:
  "\<exists>r v' evs. loop_until_timeout 30 1 (wait_stop env) v = Some (r, v')
       \<and> trace v' = trace v @ evs \<and> (r = Inr True \<longrightarrow> PidLookup None \<in> set evs)"
proof -
  let ?Q = "\<lambda>u. \<exists>evs. trace u = trace v @ evs"
  let ?R = "\<lambda>u. \<exists>evs. trace u = trace v @ evs \<and> PidLookup None \<in> set evs"
  have "\<exists>r v'. loop_while (wait_stop env) 1 (clock v + 30) v = Some (r, v') \<and> ?Q v'
          \<and> (r = Inr True \<longrightarrow> ?R v')"
  proof (rule loop_while_returns [where Q = ?Q and R = ?R])
    show "clock u \<le> clock (snd (wait_stop env u)) \<and> ?Q (snd (wait_stop env u))" if "?Q u" for u
      using that
      by (auto simp add: wait_stop_def get_management_node_pid_def log_def split: sum.splits)
    show "?Q (sleep 1 u)" if "?Q u" for u
      using that by (auto simp add: sleep_def log_def)
    show "?R u'" if "?Q u" "wait_stop env u = (Inr True, u')" for u u'
      using that
      by (auto simp add: wait_stop_def get_management_node_pid_def log_def split: sum.splits)
  qed simp_all
  then show ?thesis unfolding loop_until_timeout_def by blast
qed

lemma stop_node_run_returns:
  assumes local: "stop_args.host args = None"
  shows "\<exists>r v' evs. stop_node_run env args v = Some (r, v') \<and> trace v' = trace v @ evs
       \<and> (r = Inr () \<longrightarrow> PidLookup None \<in> set evs \<or> (\<exists>q. Run (Kill9 q) \<in> set evs))"
proof (cases "management_node_pid env (clock v)")
  case (Inl e)
  with local show ?thesis by (simp add: stop_node_run_def get_management_node_pid_def)
next
  case (Inr found)
  show ?thesis
  proof (cases found)
    case None
    with Inr local show ?thesis
      by (simp add: stop_node_run_def get_management_node_pid_def info_def log_def)
  next
    case (Some p)
    let ?v1 = "log (PidLookup (Some p)) v"
    show ?thesis
    proof (cases "stop_args.force args")
      case True
      from kill_if_present_trace [of env True 30 ?v1]
      obtain r v' evs where k: "kill_if_present env True 30 ?v1 = (r, v')"
        "trace v' = trace ?v1 @ evs"
        "r = Inr () \<longrightarrow> PidLookup None \<in> set evs \<or> (\<exists>q. Run (Kill9 q) \<in> set evs)"
        by blast
      have "stop_node_run env args v = Some (r, v')"
        using local Inr Some True k(1)
        by (simp add: stop_node_run_def get_management_node_pid_def)
      moreover have "trace v' = trace v @ PidLookup (Some p) # evs" using k(2) by simp
      ultimately show ?thesis using k(3) by (intro exI [of _ r] exI [of _ v']) auto
    next
      case False
      let ?v2 = "log (Run ShutdownScript) ?v1"
      show ?thesis
      proof (cases "fst (run_command env ShutdownScript (clock v)) = 0")
        case rc: False
        with local Inr Some \<open>\<not> stop_args.force args\<close> show ?thesis
          by (simp add: stop_node_run_def get_management_node_pid_def shell_eq)
      next
        case rc: True
        from wait_stop_loop_returns [of env ?v2]
        obtain r3 v3 evs3 where l: "loop_until_timeout 30 1 (wait_stop env) ?v2 = Some (r3, v3)"
          "trace v3 = trace ?v2 @ evs3" "r3 = Inr True \<longrightarrow> PidLookup None \<in> set evs3"
          by blast
        have run: "stop_node_run env args v =
            (case r3 of Inl e \<Rightarrow> Some (Inl e, v3)
             | Inr stopped \<Rightarrow> if stopped then Some (Inr (), info SuccessfullyStopped v3)
                             else Some (kill_if_present env False 30 v3))"
          using local Inr Some \<open>\<not> stop_args.force args\<close> rc l(1)
          by (simp add: stop_node_run_def get_management_node_pid_def shell_eq
              split: sum.splits)
        show ?thesis
        proof (cases r3)
          case (Inl e)
          with run l(2) show ?thesis by simp
        next
          case (Inr stopped)
          show ?thesis
          proof (cases stopped)
            case True
            with run Inr l(2,3) show ?thesis
              by (intro exI [of _ "Inr ()"] exI [of _ "info SuccessfullyStopped v3"])
                 (auto simp add: info_def)
          next
            case False
            from kill_if_present_trace [of env False 30 v3]
            obtain r v' evs where k: "kill_if_present env False 30 v3 = (r, v')"
              "trace v' = trace v3 @ evs"
              "r = Inr () \<longrightarrow> PidLookup None \<in> set evs \<or> (\<exists>q. Run (Kill9 q) \<in> set evs)"
              by blast
            have "stop_node_run env args v = Some (r, v')"
              using run Inr False k(1) by simp
            moreover have "trace v' = trace v @ PidLookup (Some p) # Run ShutdownScript # evs3 @ evs"
              using k(2) l(2) by simp
            ultimately show ?thesis using k(3)
              by (intro exI [of _ r] exI [of _ v']) auto
          qed
        qed
      qed
    qed
  qed
qed

lemma internal_run_stop_node_returns:
  "\<exists>r v' evs. internal_run_stop_node env v = Some (r, v') \<and> trace v' = trace v @ evs
       \<and> (r = Inr () \<longrightarrow> PidLookup None \<in> set evs \<or> (\<exists>q. Run (Kill9 q) \<in> set evs))"
proof (cases "locate_command env ''stop_node''")
  case None
  with stop_node_run_returns [of "\<lparr>stop_args.host = None, force = False\<rparr>" env v]
  show ?thesis by (simp add: internal_run_stop_node_def)
next
  case (Some e)
  then show ?thesis by (simp add: internal_run_stop_node_def)
qed

text \<open>
  Claim C4, as the code has it. \<^verbatim>\<open>start_node\<close> on this machine, with timeout \<open>T\<close>, has
  removed the boot error log, found no running node, passed its checks, run the start
  script and slept five seconds; \<open>w\<close> is the world at that moment. If during the \<open>T\<close> seconds
  that follow no boot error log appears, \<^verbatim>\<open>wget\<close> or \<^verbatim>\<open>curl\<close> is installed and the
  readiness request never succeeds, then: the wait ends after exactly \<open>T\<close> seconds with the
  error that no ready message was received; \<^verbatim>\<open>stop_node\<close> is then run, and it returns;
  whatever it returns or raises is dropped, and \<^verbatim>\<open>start_node\<close> fails with the error of the
  wait. If that \<^verbatim>\<open>stop_node\<close> succeeded, it has seen the process gone or has run \<^verbatim>\<open>kill -9\<close>.
\<close>

theorem start_timeout_attempts_stop:
  assumes local: "start_args.host args = None"
    and T: "start_args.timeout args = Some T"
    and rm: "fst (run_command env RmBootErrorLog (clock w0)) = 0"
    and stopped: "management_node_pid env (clock w0) = Inr None"
    and booted: "boot_mgmt_node env (w0\<lparr>trace := trace w0 @ [Run RmBootErrorLog, PidLookup None]\<rparr>)
                   = (Inr (), w)"
    and window: "\<And>t. clock w \<le> t \<Longrightarrow> t < clock w + T \<Longrightarrow>
        \<not> path_exists env BootErrorLog t
        \<and> (fst (run_command env (Which ''wget'') t) = 0
            \<or> fst (run_command env (Which ''curl'') t) = 0)
        \<and> fst (run_command env (WgetReady 1) t) \<noteq> 0
        \<and> fst (run_command env (CurlReady 1) t) \<noteq> 0"
  shows "\<exists>w1 r w2 evs.
           wait_mgmt_node_start env args w = Some (Inl (CtlError (NoReadyMessageWithin T)), w1)
         \<and> clock w1 = clock w + T
         \<and> internal_run_stop_node env (info FailedToStartStopItNow w1) = Some (r, w2)
         \<and> trace w2 = trace w1 @ Info FailedToStartStopItNow # evs
         \<and> (r = Inr () \<longrightarrow> PidLookup None \<in> set evs \<or> (\<exists>q. Run (Kill9 q) \<in> set evs))
         \<and> start_node_run env args w0 = Some (Inl (CtlError (NoReadyMessageWithin T)), w2)"
proof -
  obtain w1 where wait: "wait_mgmt_node_start env args w
           = Some (Inl (CtlError (NoReadyMessageWithin T)), w1)" "clock w1 = clock w + T"
    using wait_times_out [OF T window] by blast
  obtain r w2 evs where stop: "internal_run_stop_node env (info FailedToStartStopItNow w1) = Some (r, w2)"
    "trace w2 = trace (info FailedToStartStopItNow w1) @ evs"
    "r = Inr () \<longrightarrow> PidLookup None \<in> set evs \<or> (\<exists>q. Run (Kill9 q) \<in> set evs)"
    using internal_run_stop_node_returns [of env "info FailedToStartStopItNow w1"] by blast
  have "try_wait_mgmt_node_start env args w = Some (Inl (CtlError (NoReadyMessageWithin T)), w2)"
    using wait(1) stop(1) by (simp add: try_wait_mgmt_node_start_def)
  then have "start_node_run env args w0 = Some (Inl (CtlError (NoReadyMessageWithin T)), w2)"
    using local rm stopped booted
    by (simp add: start_node_run_def shell_eq get_management_node_pid_def log_def)
  moreover have "trace w2 = trace w1 @ Info FailedToStartStopItNow # evs"
    using stop(2) by (simp add: info_def)
  ultimately show ?thesis using wait stop(1,3) by blast
qed

lemmas start_node_defs =
  start_node_run_def try_wait_mgmt_node_start_def wait_mgmt_node_start_def
  loop_until_timeout_def loop_while.simps check_ready_def create_check_mgmt_node_command_def
  boot_mgmt_node_def and_then_def check_root_def check_8080_def check_msyql_def
  check_rabbitmq_def prepare_setenv_def start_mgmt_node_def on_error_def shell_eq
  shell_return_def get_database_portal_def get_management_node_pid_def
  internal_run_stop_node_def stop_node_run_def wait_stop_def kill_if_present_def
  info_def sleep_def log_def

text \<open>
  Claim C4, an instance: timeout 2, a node that never answers the readiness request.
\<close>

theorem start_timeout_attempts_stop_witness:
  "boot_mgmt_node never_ready
       ((boot 0)\<lparr>trace := trace (boot 0) @ [Run RmBootErrorLog, PidLookup None]\<rparr>)
     = (Inr (), \<lparr>clock = 5, trace =
          [Run RmBootErrorLog, PidLookup None, Run Netstat8080, Run MysqlSelect1, WroteSetenv,
           Run StartupScript, Info StartedTomcat, Slept 5]\<rparr>)
   \<and> fst (the (start_node_run never_ready \<lparr>start_args.host = None, timeout = Some 2\<rparr> (boot 0)))
       = Inl (CtlError (NoReadyMessageWithin 2))"
proof -
  let ?w = "\<lparr>clock = 5, trace =
          [Run RmBootErrorLog, PidLookup None, Run Netstat8080, Run MysqlSelect1, WroteSetenv,
           Run StartupScript, Info StartedTomcat, Slept 5]\<rparr>"
  have booted: "boot_mgmt_node never_ready
       ((boot 0)\<lparr>trace := trace (boot 0) @ [Run RmBootErrorLog, PidLookup None]\<rparr>) = (Inr (), ?w)"
    by (simp add: boot_mgmt_node_def and_then_def check_root_def check_8080_def check_msyql_def
        check_rabbitmq_def prepare_setenv_def start_mgmt_node_def on_error_def shell_eq
        shell_return_def get_database_portal_def info_def sleep_def log_def healthy_def never_ready_def boot_def)
  have window: "\<not> path_exists never_ready BootErrorLog t
        \<and> (fst (run_command never_ready (Which ''wget'') t) = 0
            \<or> fst (run_command never_ready (Which ''curl'') t) = 0)
        \<and> fst (run_command never_ready (WgetReady 1) t) \<noteq> 0
        \<and> fst (run_command never_ready (CurlReady 1) t) \<noteq> 0"
    if "clock ?w \<le> t" "t < clock ?w + 2" for t
    by (simp add: healthy_def never_ready_def boot_def)
  from start_timeout_attempts_stop
    [of "\<lparr>start_args.host = None, timeout = Some 2\<rparr>" 2 never_ready "boot 0" ?w,
      OF _ _ _ _ booted window]
  have "\<exists>w2. start_node_run never_ready \<lparr>start_args.host = None, timeout = Some 2\<rparr> (boot 0)
      = Some (Inl (CtlError (NoReadyMessageWithin 2)), w2)"
    by (auto simp add: healthy_def never_ready_def boot_def)
  with booted show ?thesis by auto
qed

text \<open>
  Claim C4 as stated fails: the node never answers the readiness request, the wait times
  out and \<^verbatim>\<open>stop_node\<close> is run, but the shutdown script exits with 1. That error is dropped,
  \<^verbatim>\<open>start_node\<close> reports the timeout, and process 42 is still there: the node is not left
  stopped.
\<close>

theorem start_timeout_counterexample:
  "start_node_run never_ready \<lparr>start_args.host = None, timeout = Some 2\<rparr> (boot 0)
     = Some (Inl (CtlError (NoReadyMessageWithin 2)),
         \<lparr>clock = 7, trace =
            [Run RmBootErrorLog, PidLookup None, Run Netstat8080, Run MysqlSelect1,
             WroteSetenv, Run StartupScript, Info StartedTomcat, Slept 5,
             Run (Which ''wget''), Run (WgetReady 1), Slept 1,
             Run (Which ''wget''), Run (WgetReady 1), Slept 1,
             Info FailedToStartStopItNow, PidLookup (Some 42), Run ShutdownScript]\<rparr>)
   \<and> management_node_pid never_ready 7 = Inr (Some 42)"
  by (simp add: start_node_defs healthy_def never_ready_def boot_def)

section \<open>Properties of StartAllCmd and StopAllCmd\<close>

lemma then_step_Inr:
  "(then_step a b w = Some (Inr (), w'))
     = (\<exists>w1. a w = Some (Inr (), w1) \<and> b w1 = Some (Inr (), w'))"
  by (auto simp add: then_step_def split: option.splits sum.splits prod.splits)

lemma then_step_Inl:
  "(then_step a b w = Some (Inl e, w'))
     = (a w = Some (Inl e, w') \<or> (\<exists>w1. a w = Some (Inr (), w1) \<and> b w1 = Some (Inl e, w')))"
  by (auto simp add: then_step_def split: option.splits sum.splits prod.splits)

text \<open>
  Claim C8, as the code has it. A service whose install marker is absent (the dashboard's
  virtualenv; the path stored under \<^verbatim>\<open>KAIROSDB_EXEC\<close> or \<^verbatim>\<open>CASSANDRA_EXEC\<close>) is skipped: its
  step prints a message and succeeds. The steps run in the order of the source, each in the
  world the one before left. The whole run succeeds exactly when every step succeeds, and
  it fails exactly when some step fails after the ones before it succeeded: with that step's
  error and in that step's final world, so that the steps after it are not run.
\<close>

theorem all_steps_skip_or_abort:
  "(\<not> path_exists env DashboardVirtualenv (clock w) \<longrightarrow>
      stop_ui env w = Some (Inr (), info (SkipStopping ''web UI'') w)
      \<and> start_ui env w = Some (Inr (), info (SkipStarting ''web UI'') w))
   \<and> (ctl_env env ''KAIROSDB_EXEC'' = Inr exe \<and> not_installed env exe (clock w) \<longrightarrow>
      stop_kairosdb env w = Some (Inr (), info (SkipStopping ''kairosdb'') w)
      \<and> start_kairosdb env w = Some (Inr (), info (SkipStarting ''kairosdb'') w))
   \<and> (ctl_env env ''CASSANDRA_EXEC'' = Inr exe \<and> not_installed env exe (clock w) \<longrightarrow>
      stop_cassandra env w = Some (Inr (), info (SkipStopping ''cassandra'') w)
      \<and> start_cassandra env w = Some (Inr (), info (SkipStarting ''cassandra'') w))
   \<and> (stop_all_run env w = Some (Inr (), w')) =
       (\<exists>w1 w2 w3. stop_ui env w = Some (Inr (), w1) \<and> stop_mgmt_node env w1 = Some (Inr (), w2)
          \<and> stop_kairosdb env w2 = Some (Inr (), w3) \<and> stop_cassandra env w3 = Some (Inr (), w'))
   \<and> (stop_all_run env w = Some (Inl e, w')) =
       (stop_ui env w = Some (Inl e, w')
        \<or> (\<exists>w1. stop_ui env w = Some (Inr (), w1)
             \<and> (stop_mgmt_node env w1 = Some (Inl e, w')
                \<or> (\<exists>w2. stop_mgmt_node env w1 = Some (Inr (), w2)
                     \<and> (stop_kairosdb env w2 = Some (Inl e, w')
                        \<or> (\<exists>w3. stop_kairosdb env w2 = Some (Inr (), w3)
                             \<and> stop_cassandra env w3 = Some (Inl e, w')))))))
   \<and> (start_all_run env w = Some (Inr (), w')) =
       (\<exists>w1 w2 w3. start_cassandra env w = Some (Inr (), w1)
          \<and> start_kairosdb env w1 = Some (Inr (), w2)
          \<and> start_all_mgmt_node env w2 = Some (Inr (), w3) \<and> start_ui env w3 = Some (Inr (), w'))
   \<and> (start_all_run env w = Some (Inl e, w')) =
       (start_cassandra env w = Some (Inl e, w')
        \<or> (\<exists>w1. start_cassandra env w = Some (Inr (), w1)
             \<and> (start_kairosdb env w1 = Some (Inl e, w')
                \<or> (\<exists>w2. start_kairosdb env w1 = Some (Inr (), w2)
                     \<and> (start_all_mgmt_node env w2 = Some (Inl e, w')
                        \<or> (\<exists>w3. start_all_mgmt_node env w2 = Some (Inr (), w3)
                             \<and> start_ui env w3 = Some (Inl e, w')))))))"
proof -
  have ui: "stop_ui env w = Some (Inr (), info (SkipStopping ''web UI'') w)
      \<and> start_ui env w = Some (Inr (), info (SkipStarting ''web UI'') w)"
    if "\<not> path_exists env DashboardVirtualenv (clock w)"
    using that by (simp add: stop_ui_def start_ui_def)
  have kairosdb: "stop_kairosdb env w = Some (Inr (), info (SkipStopping ''kairosdb'') w)
      \<and> start_kairosdb env w = Some (Inr (), info (SkipStarting ''kairosdb'') w)"
    if "ctl_env env ''KAIROSDB_EXEC'' = Inr exe" "not_installed env exe (clock w)"
    using that by (simp add: stop_kairosdb_def start_kairosdb_def)
  have cassandra: "stop_cassandra env w = Some (Inr (), info (SkipStopping ''cassandra'') w)
      \<and> start_cassandra env w = Some (Inr (), info (SkipStarting ''cassandra'') w)"
    if "ctl_env env ''CASSANDRA_EXEC'' = Inr exe" "not_installed env exe (clock w)"
    using that by (simp add: stop_cassandra_def start_cassandra_def)
  have stop_ok: "(stop_all_run env w = Some (Inr (), w')) =
       (\<exists>w1 w2 w3. stop_ui env w = Some (Inr (), w1) \<and> stop_mgmt_node env w1 = Some (Inr (), w2)
          \<and> stop_kairosdb env w2 = Some (Inr (), w3) \<and> stop_cassandra env w3 = Some (Inr (), w'))"
    by (simp add: stop_all_run_def then_step_Inr)
  have stop_err: "(stop_all_run env w = Some (Inl e, w')) =
       (stop_ui env w = Some (Inl e, w')
        \<or> (\<exists>w1. stop_ui env w = Some (Inr (), w1)
             \<and> (stop_mgmt_node env w1 = Some (Inl e, w')
                \<or> (\<exists>w2. stop_mgmt_node env w1 = Some (Inr (), w2)
                     \<and> (stop_kairosdb env w2 = Some (Inl e, w')
                        \<or> (\<exists>w3. stop_kairosdb env w2 = Some (Inr (), w3)
                             \<and> stop_cassandra env w3 = Some (Inl e, w')))))))"
    by (simp add: stop_all_run_def then_step_Inl)
  have start_ok: "(start_all_run env w = Some (Inr (), w')) =
       (\<exists>w1 w2 w3. start_cassandra env w = Some (Inr (), w1)
          \<and> start_kairosdb env w1 = Some (Inr (), w2)
          \<and> start_all_mgmt_node env w2 = Some (Inr (), w3) \<and> start_ui env w3 = Some (Inr (), w'))"
    by (simp add: start_all_run_def then_step_Inr)
  have start_err: "(start_all_run env w = Some (Inl e, w')) =
       (start_cassandra env w = Some (Inl e, w')
        \<or> (\<exists>w1. start_cassandra env w = Some (Inr (), w1)
             \<and> (start_kairosdb env w1 = Some (Inl e, w')
                \<or> (\<exists>w2. start_kairosdb env w1 = Some (Inr (), w2)
                     \<and> (start_all_mgmt_node env w2 = Some (Inl e, w')
                        \<or> (\<exists>w3. start_all_mgmt_node env w2 = Some (Inr (), w3)
                             \<and> start_ui env w3 = Some (Inl e, w')))))))"
    by (simp add: start_all_run_def then_step_Inl)
  from ui kairosdb cassandra stop_ok stop_err start_ok start_err show ?thesis by blast
qed

lemmas stop_all_defs =
  stop_all_run_def then_step_def stop_ui_def stop_mgmt_node_def stop_kairosdb_def
  stop_cassandra_def not_installed_def internal_run_def internal_run_stop_node_def
  stop_node_run_def loop_until_timeout_def loop_while.simps wait_stop_def
  kill_if_present_def get_management_node_pid_def on_error_def shell_eq info_def sleep_def
  log_def

text \<open>
  Claim C8, an instance: the web UI is installed, the time-series store is not. The UI and
  the management node are stopped, the two other steps are skipped, the run succeeds.
\<close>

theorem all_steps_skip_or_abort_witness:
  "ctl_env ui_installed ''KAIROSDB_EXEC'' = Inr None
   \<and> not_installed ui_installed None 3
   \<and> stop_all_run ui_installed (boot 0)
     = Some (Inr (),
         \<lparr>clock = 3, trace =
            [Info (Stopping ''ZStack web UI''), SubCommand ''stop_ui'' [],
             Info (Stopping ''ZStack management node''),
             PidLookup (Some 42), Run ShutdownScript,
             PidLookup (Some 42), Slept 1, PidLookup (Some 42), Slept 1,
             PidLookup (Some 42), Slept 1, PidLookup None, Info SuccessfullyStopped,
             Info (SkipStopping ''kairosdb''), Info (SkipStopping ''cassandra'')]\<rparr>)"
proof -
  let ?w1 = "\<lparr>clock = 0, trace =
            [Info (Stopping ''ZStack web UI''), SubCommand ''stop_ui'' []]\<rparr>"
  let ?w2 = "\<lparr>clock = 3, trace =
            [Info (Stopping ''ZStack web UI''), SubCommand ''stop_ui'' [],
             Info (Stopping ''ZStack management node''),
             PidLookup (Some 42), Run ShutdownScript,
             PidLookup (Some 42), Slept 1, PidLookup (Some 42), Slept 1,
             PidLookup (Some 42), Slept 1, PidLookup None, Info SuccessfullyStopped]\<rparr>"
  let ?w3 = "info (SkipStopping ''kairosdb'') ?w2"
  let ?w4 = "info (SkipStopping ''cassandra'') ?w3"
  have 1: "stop_ui ui_installed (boot 0) = Some (Inr (), ?w1)"
    by (simp add: stop_all_defs healthy_def stops_after_3_def ui_installed_def boot_def)
  have 2: "stop_mgmt_node ui_installed ?w1 = Some (Inr (), ?w2)"
    by (simp add: stop_all_defs healthy_def stops_after_3_def ui_installed_def boot_def)
  have absent: "ctl_env ui_installed name = Inr None" "not_installed ui_installed None t" for name t
    by (simp_all add: healthy_def stops_after_3_def ui_installed_def boot_def not_installed_def)
  note steps = all_steps_skip_or_abort [where env = ui_installed and exe = None]
  have 3: "stop_kairosdb ui_installed ?w2 = Some (Inr (), ?w3)"
    using steps [where w = ?w2, THEN conjunct2, THEN conjunct1] absent by simp
  have 4: "stop_cassandra ui_installed ?w3 = Some (Inr (), ?w4)"
    using steps [where w = ?w3, THEN conjunct2, THEN conjunct2, THEN conjunct1] absent by simp
  have "stop_all_run ui_installed (boot 0) = Some (Inr (), ?w4)"
    using steps [where w = "boot 0" and w' = ?w4, THEN conjunct2, THEN conjunct2, THEN conjunct2,
        THEN conjunct1] 1 2 3 4
    by blast
  with absent show ?thesis by (simp add: info_def log_def)
qed

text \<open>
  Claim C8 as stated fails: the web UI is not installed and is skipped; the shutdown script
  of the management node exits with 1; the run ends there with that error. The steps for
  kairosdb and cassandra are not run: they would at least have printed that they skip.
\<close>

theorem all_steps_counterexample:
  "stop_all_run shutdown_fails (boot 0)
     = Some (Inl (CtlError (ShellFailed ShutdownScript 1)),
         \<lparr>clock = 0, trace =
            [Info (SkipStopping ''web UI''), Info (Stopping ''ZStack management node''),
             PidLookup (Some 42), Run ShutdownScript]\<rparr>)"
  by (simp add: stop_all_defs healthy_def running_def shutdown_fails_def boot_def)

end
